theory Spec2Isabelle
  imports Main "HOL-Library.Sublist" "HOL-Library.AList"
begin

section \<open>Python values\<close>

text \<open>
  Text is a list of characters; a character stands for a code point below 256. Exceptions
  are values of the type \<open>error\<close>, and a function that may raise returns
  \<open>error + 'a\<close> with \<open>Inl\<close> for the exception. Output written to the console is
  not part of the development.
\<close>

datatype error =
    ValueError string
  | TypeError string
  | FileNotFoundError string
  | AttributeError string
  | IndexError string
  | RuntimeError string
  | LibraryError string

definition newline :: char where
  "newline = CHR 0x0A"

text \<open>\<^verbatim>\<open>str.isspace\<close> of one character, on the code points below 256.\<close>

definition isspace :: "char \<Rightarrow> bool" where
  "isspace c = ((of_char c :: nat) \<in> {9, 10, 11, 12, 13, 28, 29, 30, 31, 32, 133, 160})"

definition strip :: "string \<Rightarrow> string" where
  "strip s = rev (dropWhile isspace (rev (dropWhile isspace s)))"

text \<open>\<^verbatim>\<open>str.lower\<close>: the capital letters below 256 are A to Z and 192 to 222 except 215.\<close>

definition lower_char :: "char \<Rightarrow> char" where
  "lower_char c =
     (let n = (of_char c :: nat)
      in if (65 \<le> n \<and> n \<le> 90) \<or> (192 \<le> n \<and> n \<le> 222 \<and> n \<noteq> 215)
         then char_of (n + 32) else c)"

definition lower :: "string \<Rightarrow> string" where
  "lower s = map lower_char s"

definition endswith :: "string \<Rightarrow> string \<Rightarrow> bool" where
  "endswith s suf = suffix suf s"

text \<open>\<^verbatim>\<open>marker in text\<close>: the marker occurs as a contiguous run of the text.\<close>

fun contains :: "string \<Rightarrow> string \<Rightarrow> bool" where
  "contains [] marker = (marker = [])"
| "contains (c # cs) marker = (prefix marker (c # cs) \<or> contains cs marker)"

section \<open>model.py\<close>

subsection \<open>ModelConfig\<close>

record model_config =
  api_key :: string
  endpoint :: string
  api_version :: string
  deployment_name :: string

text \<open>\<^verbatim>\<open>__post_init__\<close>: the four checks in the order of the source.\<close>

definition post_init :: "model_config \<Rightarrow> error + model_config" where
  "post_init c =
     (if api_key c = [] then Inl (ValueError ''AZURE_OPENAI_API_KEY is required'')
      else if endpoint c = [] then Inl (ValueError ''AZURE_OPENAI_ENDPOINT is required'')
      else if api_version c = [] then Inl (ValueError ''AZURE_OPENAI_API_VERSION is required'')
      else if deployment_name c = []
        then Inl (ValueError ''AZURE_OPENAI_DEPLOYMENT_NAME is required'')
      else Inr c)"

definition ModelConfig :: "string \<Rightarrow> string \<Rightarrow> string \<Rightarrow> string \<Rightarrow> error + model_config" where
  "ModelConfig k e v d =
     post_init \<lparr>api_key = k, endpoint = e, api_version = v, deployment_name = d\<rparr>"

definition default_api_version :: string where
  "default_api_version = ''2025-01-01''"

definition default_deployment_name :: string where
  "default_deployment_name = ''gpt-4o''"

text \<open>
  \<^verbatim>\<open>ModelConfig(**config_dict)\<close>: a dictionary is an association list. A key that is
  not a field is a \<^verbatim>\<open>TypeError\<close>, as is a missing field without a default.
\<close>

definition field_names :: "string list" where
  "field_names = [''api_key'', ''endpoint'', ''api_version'', ''deployment_name'']"

definition ModelConfig_kwargs :: "(string \<times> string) list \<Rightarrow> error + model_config" where
  "ModelConfig_kwargs d =
     (case filter (\<lambda>k. k \<notin> set field_names) (map fst d) of
        k # _ \<Rightarrow> Inl (TypeError (''unexpected keyword argument '' @ k))
      | [] \<Rightarrow>
         (case map_of d ''api_key'' of
            None \<Rightarrow> Inl (TypeError ''missing required argument api_key'')
          | Some k \<Rightarrow>
             (case map_of d ''endpoint'' of
                None \<Rightarrow> Inl (TypeError ''missing required argument endpoint'')
              | Some e \<Rightarrow>
                 ModelConfig k e
                   (case map_of d ''api_version'' of
                      None \<Rightarrow> default_api_version | Some v \<Rightarrow> v)
                   (case map_of d ''deployment_name'' of
                      None \<Rightarrow> default_deployment_name | Some n \<Rightarrow> n))))"

subsection \<open>ModelManager\<close>

text \<open>
  A client handle is an object: \<open>handle\<close> is its identity, taken from a counter of the
  objects created so far, and the other fields are the arguments of the constructor.
\<close>

record client =
  handle :: nat
  azure_deployment :: string
  model :: string
  client_api_key :: string
  azure_endpoint :: string
  client_api_version :: string

record model_manager =
  config :: model_config
  cached_client :: "client option"

definition create_client :: "nat \<Rightarrow> model_manager \<Rightarrow> client" where
  "create_client h m =
     \<lparr>handle = h,
      azure_deployment = deployment_name (config m),
      model = deployment_name (config m),
      client_api_key = api_key (config m),
      azure_endpoint = endpoint (config m),
      client_api_version = api_version (config m)\<rparr>"

text \<open>
  The property \<^verbatim>\<open>client\<close>: the counter \<open>h\<close> goes in and comes out, advanced when a
  handle was created.
\<close>

definition get_client :: "nat \<Rightarrow> model_manager \<Rightarrow> client \<times> nat \<times> model_manager" where
  "get_client h m =
     (case cached_client m of
        None \<Rightarrow> (let c = create_client h m in (c, Suc h, m\<lparr>cached_client := Some c\<rparr>))
      | Some c \<Rightarrow> (c, h, m))"

definition dict_update :: "(string \<times> string) list \<Rightarrow> (string \<times> string) list \<Rightarrow> (string \<times> string) list" where
  "dict_update d kwargs = fold (\<lambda>(k, v). AList.update k v) kwargs d"

text \<open>
  \<^verbatim>\<open>update_config\<close> returns the outcome and the manager afterwards: the record is
  built, and validated, before either field of the manager is assigned.
\<close>

definition update_config :: "model_manager \<Rightarrow> (string \<times> string) list \<Rightarrow> (error + unit) \<times> model_manager" where
  "update_config m kwargs =
     (let config_dict =
            dict_update
              [(''api_key'', api_key (config m)),
               (''endpoint'', endpoint (config m)),
               (''api_version'', api_version (config m)),
               (''deployment_name'', deployment_name (config m))]
              kwargs
      in case ModelConfig_kwargs config_dict of
           Inl e \<Rightarrow> (Inl e, m)
         | Inr c \<Rightarrow> (Inr (), m\<lparr>config := c, cached_client := None\<rparr>))"

text \<open>
  The merge that an update asks for: the value given for a field (the last one, should a
  name be given twice), or else the prior value.
\<close>

definition merged :: "string \<Rightarrow> (string \<times> string) list \<Rightarrow> string \<Rightarrow> string" where
  "merged prior kwargs name = (case map_of (rev kwargs) name of None \<Rightarrow> prior | Some v \<Rightarrow> v)"

text \<open>Every handle the manager holds was created before the counter reached \<open>h\<close>.\<close>

definition handles_below :: "nat \<Rightarrow> model_manager \<Rightarrow> bool" where
  "handles_below h m = (case cached_client m of None \<Rightarrow> True | Some c \<Rightarrow> handle c < h)"

section \<open>Agents, messages and the external collaborators\<close>

datatype image = Image nat

record agent =
  agent_name :: string
  model_client :: client
  system_message :: string

text \<open>\<^verbatim>\<open>TextMentionTermination(text, sources=...)\<close> as the source configures it.\<close>

record text_mention_termination =
  mention_text :: string
  sources :: "string list"

record group_chat =
  participants :: "agent list"
  termination_condition :: text_mention_termination

record message =
  source :: string
  content :: string

record task_result =
  messages :: "message list"
  stop_reason :: "string option"

text \<open>
  What a run yields, one item at a time: the messages, then the result that collects
  them. A stream is read by position; \<open>None\<close> is its end, \<open>Inl\<close> an exception raised
  while waiting for the next item. A stream without an end is a run that never stops.
\<close>

datatype stream_item = StreamMessage message | StreamResult task_result

type_synonym stream = "nat \<Rightarrow> (error + stream_item) option"

text \<open>The stream that yields the items of a list and ends.\<close>

definition stream_of :: "stream_item list \<Rightarrow> stream" where
  "stream_of items i = (if i < length items then Some (Inr (items ! i)) else None)"

text \<open>The calls that leave the program: inference, export and writes to the file system.\<close>

datatype call =
    RunTeam group_chat string
  | RunAgent agent string image
  | PdfkitFromString string string
  | Mkdir string bool bool
  | SaveImage image string string

text \<open>
  The libraries and the machine around the program. A path is the text it was built from,
  and \<^verbatim>\<open>pathlib\<close> is a parameter: \<open>path_join d f\<close> is \<^verbatim>\<open>str(Path(d) / f)\<close>.
\<close>

record world =
  argv :: "string list"
  console_input :: "error + string"
  path_exists :: "string \<Rightarrow> bool"
  path_suffix :: "string \<Rightarrow> string"
  path_stem :: "string \<Rightarrow> string"
  path_parent :: "string \<Rightarrow> string"
  path_join :: "string \<Rightarrow> string \<Rightarrow> string"
  read_text :: "string \<Rightarrow> error + string"
  read_pdf :: "string \<Rightarrow> error + (error + string) list"
  convert_from_path :: "string \<Rightarrow> int \<Rightarrow> string option \<Rightarrow> error + image list"
  venv_dir :: "string option"
  os_name_nt :: bool
  run_stream :: "group_chat \<Rightarrow> string \<Rightarrow> stream"
  agent_run_stream :: "agent \<Rightarrow> string \<Rightarrow> image \<Rightarrow> stream"
  pdfkit_from_string :: "string \<Rightarrow> string \<Rightarrow> error option"

section \<open>utils.py\<close>

subsection \<open>PromptManager\<close>

record prompt_manager =
  prompts_dir :: string
  prompt_cache :: "(string \<times> string) list"

definition load_prompt :: "world \<Rightarrow> prompt_manager \<Rightarrow> string \<Rightarrow> (error + string) \<times> prompt_manager" where
  "load_prompt w pm filename =
     (case map_of (prompt_cache pm) filename of
        Some cached \<Rightarrow> (Inr cached, pm)
      | None \<Rightarrow>
         (let prompt_path = path_join w (prompts_dir pm) (filename @ ''.txt'')
          in case read_text w prompt_path of
               Inl (FileNotFoundError _) \<Rightarrow>
                 (Inl (FileNotFoundError (''Prompt file not found: '' @ prompt_path)), pm)
             | Inl e \<Rightarrow> (Inl e, pm)
             | Inr text \<Rightarrow>
                 (let stripped = strip text
                  in (Inr stripped,
                      pm\<lparr>prompt_cache := AList.update filename stripped (prompt_cache pm)\<rparr>))))"

subsection \<open>PDFProcessor\<close>

record pdf_processor =
  default_dpi :: int
  poppler_path :: "string option"

text \<open>The loop over the pages: the text of a page may fail to extract.\<close>

fun page_loop :: "string \<Rightarrow> (error + string) list \<Rightarrow> error + string" where
  "page_loop text_content [] = Inr text_content"
| "page_loop text_content (Inl e # pages) = Inl e"
| "page_loop text_content (Inr t # pages) = page_loop (text_content @ t @ [newline]) pages"

definition extract_text :: "world \<Rightarrow> string \<Rightarrow> error + string" where
  "extract_text w pdf_path =
     (if \<not> path_exists w pdf_path
      then Inl (FileNotFoundError (''PDF file not found: '' @ pdf_path))
      else
        (let text_content =
               (case (case read_pdf w pdf_path of
                        Inl e \<Rightarrow> Inl e
                      | Inr pages \<Rightarrow> page_loop [] pages) of
                  Inl e \<Rightarrow> []
                | Inr t \<Rightarrow> t)
         in Inr (strip text_content)))"

definition backslash :: char where
  "backslash = CHR 0x5C"

definition find_poppler_path :: "world \<Rightarrow> string option" where
  "find_poppler_path w =
     (let possible_paths =
            [''/usr/bin'',
             ''/usr/local/bin'',
             ''/opt/homebrew/bin'',
             ''C:'' @ [backslash] @ ''Program Files'' @ [backslash] @ ''poppler''
               @ [backslash] @ ''bin'',
             ''C:'' @ [backslash] @ ''Program Files (x86)'' @ [backslash] @ ''poppler''
               @ [backslash] @ ''bin'']
            @ (case venv_dir w of
                 None \<Rightarrow> []
               | Some venv_path \<Rightarrow>
                   [path_join w (path_join w venv_path ''poppler'') ''bin'',
                    path_join w (path_join w (path_parent w venv_path) ''poppler'') ''bin'']);
          pdftoppm_name = (if os_name_nt w then ''pdftoppm.exe'' else ''pdftoppm'')
      in find (\<lambda>path. path_exists w (path_join w path pdftoppm_name)) possible_paths)"

definition convert_to_images :: "world \<Rightarrow> pdf_processor \<Rightarrow> string \<Rightarrow> int option \<Rightarrow> (error + image list) \<times> pdf_processor" where
  "convert_to_images w pp pdf_path dpi =
     (if \<not> path_exists w pdf_path
      then (Inl (FileNotFoundError (''PDF file not found: '' @ pdf_path)), pp)
      else
        (let dpi' = (case dpi of
                       None \<Rightarrow> default_dpi pp
                     | Some d \<Rightarrow> if d = 0 then default_dpi pp else d);
             pp' = (if poppler_path pp = None
                    then pp\<lparr>poppler_path := find_poppler_path w\<rparr> else pp)
         in case convert_from_path w pdf_path dpi' (poppler_path pp') of
              Inl e \<Rightarrow> (Inr [], pp')
            | Inr images \<Rightarrow> (Inr images, pp')))"

subsection \<open>ImageProcessor\<close>

definition digit_char :: "nat \<Rightarrow> char" where
  "digit_char d = char_of (48 + d)"

fun decimal :: "nat \<Rightarrow> string" where
  "decimal n = (if n < 10 then [digit_char n] else decimal (n div 10) @ [digit_char (n mod 10)])"

declare decimal.simps [simp del]

text \<open>The format \<^verbatim>\<open>{i:02d}\<close>: zeros on the left up to a width of two.\<close>

definition format_02d :: "nat \<Rightarrow> string" where
  "format_02d i = (let s = decimal i in replicate (2 - length s) (CHR ''0'') @ s)"

text \<open>
  \<^verbatim>\<open>save_images\<close> returns the calls it makes, in order, and the list of paths. The calls
  to the file system are taken to succeed.
\<close>

definition save_images :: "world \<Rightarrow> image list \<Rightarrow> string \<Rightarrow> string \<Rightarrow> call list \<times> string list" where
  "save_images w images output_dir base_filename =
     fold (\<lambda>(i, img) (made, saved_paths).
             (let filename = base_filename @ ''_'' @ format_02d i @ ''.png'';
                  filepath = path_join w output_dir filename
              in (made @ [SaveImage img filepath ''PNG''], saved_paths @ [filepath])))
          (enumerate 1 images)
          ([Mkdir output_dir True True], [])"

subsection \<open>FileManager\<close>

definition generate_output_filename :: "world \<Rightarrow> string \<Rightarrow> string \<Rightarrow> string" where
  "generate_output_filename w input_path sfx =
     path_join w (path_parent w input_path) (path_stem w input_path @ ''_'' @ sfx @ ''.pdf'')"

definition validate_pdf_path :: "world \<Rightarrow> string \<Rightarrow> error + string" where
  "validate_pdf_path w pdf_path =
     (if \<not> path_exists w pdf_path
      then Inl (FileNotFoundError (''File not found: '' @ pdf_path))
      else if lower (path_suffix w pdf_path) \<noteq> ''.pdf''
      then Inl (ValueError (''File is not a PDF: '' @ pdf_path))
      else Inr pdf_path)"

subsection \<open>ResumeProcessor\<close>

record resume_processor =
  rp_prompt_manager :: prompt_manager
  pdf_processor :: pdf_processor

definition process_pdf :: "world \<Rightarrow> resume_processor \<Rightarrow> string \<Rightarrow> string option \<Rightarrow> (error + string \<times> image list \<times> string list) \<times> resume_processor \<times> call list" where
  "process_pdf w rp pdf_path output_dir =
     (case validate_pdf_path w pdf_path of
        Inl e \<Rightarrow> (Inl e, rp, [])
      | Inr validated_path \<Rightarrow>
         (case extract_text w validated_path of
            Inl e \<Rightarrow> (Inl e, rp, [])
          | Inr text_content \<Rightarrow>
             (case convert_to_images w (pdf_processor rp) validated_path None of
                (Inl e, pp) \<Rightarrow> (Inl e, rp\<lparr>pdf_processor := pp\<rparr>, [])
              | (Inr images, pp) \<Rightarrow>
                 (let (made, saved_paths) =
                        (case output_dir of
                           None \<Rightarrow> ([], [])
                         | Some d \<Rightarrow>
                             if d = [] then ([], [])
                             else save_images w images d ''resume_page'')
                  in (Inr (text_content, images, saved_paths),
                      rp\<lparr>pdf_processor := pp\<rparr>, made)))))"

section \<open>resumeimprover.py\<close>

subsection \<open>AgentFactory and ResumeTeam\<close>

record resume_team =
  team_cache :: "group_chat option"
  image_agent_cache :: "agent option"

text \<open>
  The object \<^verbatim>\<open>ResumeImprover\<close>, in which the agent factory and the team share the model
  manager and the prompt manager; with it the counter of the objects created and the
  calls made so far.
\<close>

record resume_improver =
  model_manager :: model_manager
  prompt_manager :: prompt_manager
  resume_processor :: resume_processor
  team :: resume_team
  next_handle :: nat
  calls :: "call list"

text \<open>
  \<^verbatim>\<open>AssistantAgent(name=..., model_client=self.model_manager.client,
  system_message=self.prompt_manager.load_prompt(...))\<close>: the client is fetched first,
  then the prompt is loaded, which may raise.
\<close>

definition assistant_agent :: "world \<Rightarrow> resume_improver \<Rightarrow> string \<Rightarrow> string \<Rightarrow> (error + agent) \<times> resume_improver" where
  "assistant_agent w s name prompt_name =
     (let (c, h, mm) = get_client (next_handle s) (model_manager s);
          (r, pm) = load_prompt w (prompt_manager s) prompt_name;
          s' = s\<lparr>model_manager := mm, next_handle := h, prompt_manager := pm\<rparr>
      in case r of
           Inl e \<Rightarrow> (Inl e, s')
         | Inr prompt \<Rightarrow>
             (Inr \<lparr>agent_name = name, model_client = c, system_message = prompt\<rparr>, s'))"

definition create_draft_agent :: "world \<Rightarrow> resume_improver \<Rightarrow> (error + agent) \<times> resume_improver" where
  "create_draft_agent w s = assistant_agent w s ''ResumeDraftAgent'' ''resume_draft_agent_prompt''"

definition create_enhancement_agent :: "world \<Rightarrow> resume_improver \<Rightarrow> (error + agent) \<times> resume_improver" where
  "create_enhancement_agent w s =
     assistant_agent w s ''ResumeEnhancementAgent'' ''resume_enhancement_agent_prompt''"

definition create_conciseness_agent :: "world \<Rightarrow> resume_improver \<Rightarrow> (error + agent) \<times> resume_improver" where
  "create_conciseness_agent w s =
     assistant_agent w s ''ResumeConcisenessAgent'' ''resume_conciseness_agent_prompt''"

definition create_image_agent :: "world \<Rightarrow> resume_improver \<Rightarrow> (error + agent) \<times> resume_improver" where
  "create_image_agent w s = assistant_agent w s ''ResumeImageAgent'' ''resume_image_agent_prompt''"

definition create_team :: "world \<Rightarrow> resume_improver \<Rightarrow> (error + group_chat) \<times> resume_improver" where
  "create_team w s =
     (case team_cache (team s) of
        Some g \<Rightarrow> (Inr g, s)
      | None \<Rightarrow>
         (case create_draft_agent w s of
            (Inl e, s1) \<Rightarrow> (Inl e, s1)
          | (Inr draft_agent, s1) \<Rightarrow>
             (case create_enhancement_agent w s1 of
                (Inl e, s2) \<Rightarrow> (Inl e, s2)
              | (Inr enhancement_agent, s2) \<Rightarrow>
                 (case create_conciseness_agent w s2 of
                    (Inl e, s3) \<Rightarrow> (Inl e, s3)
                  | (Inr conciseness_agent, s3) \<Rightarrow>
                     (let g = \<lparr>participants =
                                  [draft_agent, enhancement_agent, conciseness_agent],
                                termination_condition =
                                  \<lparr>mention_text = ''FINAL'',
                                   sources = [''ResumeConcisenessAgent'']\<rparr>\<rparr>
                      in (Inr g, s3\<lparr>team := (team s3)\<lparr>team_cache := Some g\<rparr>\<rparr>))))))"

definition get_image_agent :: "world \<Rightarrow> resume_improver \<Rightarrow> (error + agent) \<times> resume_improver" where
  "get_image_agent w s =
     (case image_agent_cache (team s) of
        Some a \<Rightarrow> (Inr a, s)
      | None \<Rightarrow>
         (case create_image_agent w s of
            (Inl e, s1) \<Rightarrow> (Inl e, s1)
          | (Inr a, s1) \<Rightarrow> (Inr a, s1\<lparr>team := (team s1)\<lparr>image_agent_cache := Some a\<rparr>\<rparr>)))"

subsection \<open>ResumeImprover\<close>

text \<open>
  \<^verbatim>\<open>async for message in stream: result = message\<close>: the loop keeps the last item. It
  returns when the stream ends; on a stream without an end it has no value.
\<close>

partial_function (option) drain :: "stream \<Rightarrow> nat \<Rightarrow> stream_item option \<Rightarrow> (error + stream_item option) option" where
  "drain st i result =
     (case st i of
        None \<Rightarrow> Some (Inr result)
      | Some (Inl e) \<Rightarrow> Some (Inl e)
      | Some (Inr item) \<Rightarrow> drain st (Suc i) (Some item))"

declare drain.simps [code]

text \<open>
  The lines after the loop, the same in both methods:
  \<^verbatim>\<open>if result and result.messages: return result.messages[-1].content\<close>, else
  \<^verbatim>\<open>None\<close>. A message has no attribute \<^verbatim>\<open>messages\<close>.
\<close>

definition last_content :: "stream_item option \<Rightarrow> error + string option" where
  "last_content result =
     (case result of
        None \<Rightarrow> Inr None
      | Some (StreamMessage m) \<Rightarrow> Inl (AttributeError ''messages'')
      | Some (StreamResult r) \<Rightarrow>
          if messages r = [] then Inr None else Inr (Some (content (last (messages r)))))"

definition team_task :: "string \<Rightarrow> string \<Rightarrow> string" where
  "team_task task_prompt resume_text =
     task_prompt @ [newline, newline] @ ''Original Resume Text:'' @ [newline] @ resume_text"

definition improve_resume_text :: "world \<Rightarrow> resume_improver \<Rightarrow> string \<Rightarrow> ((error + string option) \<times> resume_improver) option" where
  "improve_resume_text w s resume_text =
     (case load_prompt w (prompt_manager s) ''resume_team_task_prompt'' of
        (Inl e, pm) \<Rightarrow> Some (Inl e, s\<lparr>prompt_manager := pm\<rparr>)
      | (Inr task_prompt, pm) \<Rightarrow>
         (let task = team_task task_prompt resume_text
          in case create_team w (s\<lparr>prompt_manager := pm\<rparr>) of
               (Inl e, s1) \<Rightarrow> Some (Inl e, s1)
             | (Inr g, s1) \<Rightarrow>
                (let s2 = s1\<lparr>calls := calls s1 @ [RunTeam g task]\<rparr>
                 in case drain (run_stream w g task) 0 None of
                      None \<Rightarrow> None
                    | Some (Inl e) \<Rightarrow> Some (Inl e, s2)
                    | Some (Inr improve_result) \<Rightarrow> Some (last_content improve_result, s2))))"

definition image_task :: "string \<Rightarrow> string" where
  "image_task improved_text =
     ''New Resume Content:'' @ [newline] @ improved_text @ [newline, newline]
       @ ''Original image with desired format attached''"

definition generate_resume_image :: "world \<Rightarrow> resume_improver \<Rightarrow> string \<Rightarrow> image \<Rightarrow> ((error + string option) \<times> resume_improver) option" where
  "generate_resume_image w s improved_text original_image =
     (case get_image_agent w s of
        (Inl e, s1) \<Rightarrow> Some (Inl e, s1)
      | (Inr image_agent, s1) \<Rightarrow>
         (let text = image_task improved_text;
              s2 = s1\<lparr>calls := calls s1 @ [RunAgent image_agent text original_image]\<rparr>
          in case drain (agent_run_stream w image_agent text original_image) 0 None of
               None \<Rightarrow> None
             | Some (Inl e) \<Rightarrow> Some (Inl e, s2)
             | Some (Inr result) \<Rightarrow> Some (last_content result, s2)))"

definition improve_resume :: "world \<Rightarrow> resume_improver \<Rightarrow> string \<Rightarrow> image \<Rightarrow> ((error + string option) \<times> resume_improver) option" where
  "improve_resume w s resume_text resume_image =
     (case improve_resume_text w s resume_text of
        None \<Rightarrow> None
      | Some (Inl e, s1) \<Rightarrow> Some (Inl e, s1)
      | Some (Inr improved_text, s1) \<Rightarrow>
         (case improved_text of
            None \<Rightarrow> Some (Inr None, s1)
          | Some t \<Rightarrow>
              if t = [] then Some (Inr None, s1)
              else generate_resume_image w s1 t resume_image))"

definition process_pdf_file :: "world \<Rightarrow> resume_improver \<Rightarrow> string \<Rightarrow> (error + string \<times> image list) \<times> resume_improver" where
  "process_pdf_file w s pdf_path =
     (case process_pdf w (resume_processor s) pdf_path None of
        (Inl e, rp, made) \<Rightarrow> (Inl e, s\<lparr>resume_processor := rp, calls := calls s @ made\<rparr>)
      | (Inr (text_content, images, _), rp, made) \<Rightarrow>
         (let s1 = s\<lparr>resume_processor := rp, calls := calls s @ made\<rparr>
          in if strip text_content = []
             then (Inl (ValueError ''No text could be extracted from the PDF''), s1)
             else if images = []
             then (Inl (ValueError ''No images could be extracted from the PDF''), s1)
             else (Inr (text_content, images), s1)))"

text \<open>\<^verbatim>\<open>str(e)\<close> of an exception is its message.\<close>

fun error_text :: "error \<Rightarrow> string" where
  "error_text (ValueError m) = m"
| "error_text (TypeError m) = m"
| "error_text (FileNotFoundError m) = m"
| "error_text (AttributeError m) = m"
| "error_text (IndexError m) = m"
| "error_text (RuntimeError m) = m"
| "error_text (LibraryError m) = m"

definition save_improved_resume :: "world \<Rightarrow> resume_improver \<Rightarrow> string \<Rightarrow> string \<Rightarrow> (error + string) \<times> resume_improver" where
  "save_improved_resume w s html_content original_pdf_path =
     (let output_path = generate_output_filename w original_pdf_path ''improved'';
          s1 = s\<lparr>calls := calls s @ [PdfkitFromString html_content output_path]\<rparr>
      in case pdfkit_from_string w html_content output_path of
           None \<Rightarrow> (Inr output_path, s1)
         | Some e \<Rightarrow>
             (Inl (RuntimeError (''Failed to save improved resume: '' @ error_text e)), s1))"

subsection \<open>ResumeImproverCLI\<close>

definition get_pdf_path :: "world \<Rightarrow> error + string" where
  "get_pdf_path w =
     (case (if 2 \<le> length (argv w) then Inr (argv w ! 1)
            else (case console_input w of
                    Inl e \<Rightarrow> Inl e
                  | Inr line \<Rightarrow> Inr (strip line))) of
        Inl e \<Rightarrow> Inl e
      | Inr pdf_path \<Rightarrow>
          if pdf_path = [] then Inl (ValueError ''No file path provided'') else Inr pdf_path)"

definition validate_pdf_file :: "world \<Rightarrow> string \<Rightarrow> error + string" where
  "validate_pdf_file w pdf_path =
     (if \<not> path_exists w pdf_path
      then Inl (FileNotFoundError (''File '' @ [CHR 0x27] @ pdf_path @ [CHR 0x27] @ '' not found''))
      else if \<not> endswith (lower pdf_path) ''.pdf''
      then Inl (ValueError ''Please provide a PDF file'')
      else Inr pdf_path)"

text \<open>
  \<^verbatim>\<open>run\<close> catches every exception and reports on the console; the outcome says which
  report it was. Without a value, the run never returns.
\<close>

datatype outcome = Saved string | NotSaved error | NoContent | Failed error

definition run :: "world \<Rightarrow> resume_improver \<Rightarrow> (outcome \<times> resume_improver) option" where
  "run w s =
     (case get_pdf_path w of
        Inl e \<Rightarrow> Some (Failed e, s)
      | Inr given_path \<Rightarrow>
         (case validate_pdf_file w given_path of
            Inl e \<Rightarrow> Some (Failed e, s)
          | Inr pdf_path \<Rightarrow>
             (case process_pdf_file w s pdf_path of
                (Inl e, s1) \<Rightarrow> Some (Failed e, s1)
              | (Inr (resume_text, resume_images), s1) \<Rightarrow>
                 (case resume_images of
                    [] \<Rightarrow> Some (Failed (IndexError ''list index out of range''), s1)
                  | first_image # _ \<Rightarrow>
                     (case improve_resume w s1 resume_text first_image of
                        None \<Rightarrow> None
                      | Some (Inl e, s2) \<Rightarrow> Some (Failed e, s2)
                      | Some (Inr final_resume_content, s2) \<Rightarrow>
                         (case final_resume_content of
                            None \<Rightarrow> Some (NoContent, s2)
                          | Some html \<Rightarrow>
                              if html = [] then Some (NoContent, s2)
                              else (case save_improved_resume w s2 html pdf_path of
                                      (Inl e, s3) \<Rightarrow> Some (NotSaved e, s3)
                                    | (Inr output_path, s3) \<Rightarrow>
                                        Some (Saved output_path, s3))))))))"

subsection \<open>What the log of calls holds\<close>

fun is_inference :: "call \<Rightarrow> bool" where
  "is_inference (RunTeam g task) = True"
| "is_inference (RunAgent a text img) = True"
| "is_inference c = False"

fun is_image_stage :: "call \<Rightarrow> bool" where
  "is_image_stage (RunAgent a text img) = True"
| "is_image_stage c = False"

fun is_export :: "call \<Rightarrow> bool" where
  "is_export (PdfkitFromString html p) = True"
| "is_export c = False"

section \<open>The turn-taking group\<close>

text \<open>
  Modelled from the spec: the round loop of the turn-taking group and the scan for the
  marker, which the source takes from the agent library (\<^verbatim>\<open>RoundRobinGroupChat\<close>,
  \<^verbatim>\<open>TextMentionTermination\<close>) and which is not among the sources. The spec has: each
  agent takes one turn per round, in the fixed order, and rounds follow one another until
  termination; the run terminates when a message attributed to a designated source
  contains the marker; there is no bound on the number of rounds. What an agent answers
  to the conversation so far is the inference backend's matter, the parameter \<open>reply\<close>.
\<close>

definition text_mention :: "text_mention_termination \<Rightarrow> message \<Rightarrow> bool" where
  "text_mention t m = (source m \<in> set (sources t) \<and> contains (content m) (mention_text t))"

text \<open>Modelled from the spec: the message of turn \<open>k\<close>, by the agent whose turn it is.\<close>

definition turn :: "(agent \<Rightarrow> message list \<Rightarrow> string) \<Rightarrow> group_chat \<Rightarrow> nat \<Rightarrow> message list \<Rightarrow> message" where
  "turn reply g k thread =
     (let a = participants g ! (k mod length (participants g))
      in \<lparr>source = agent_name a, content = reply a thread\<rparr>)"

text \<open>
  Modelled from the spec: the loop of rounds, from turn \<open>k\<close> on. It returns the
  conversation when the termination condition holds of the message just emitted, and
  has no value when that never happens.
\<close>

partial_function (option) round_robin :: "(agent \<Rightarrow> message list \<Rightarrow> string) \<Rightarrow> group_chat \<Rightarrow> nat \<Rightarrow> message list \<Rightarrow> message list option" where
  "round_robin reply g k thread =
     (let m = turn reply g k thread
      in if text_mention (termination_condition g) m then Some (thread @ [m])
         else round_robin reply g (Suc k) (thread @ [m]))"

declare round_robin.simps [code]

text \<open>
  Modelled from the spec: the conversation of such a group after \<open>n\<close> turns when
  nothing stops it, and the message of turn \<open>n\<close> in it. These are the words in which a
  run is described.
\<close>

fun thread_after :: "(agent \<Rightarrow> message list \<Rightarrow> string) \<Rightarrow> group_chat \<Rightarrow> message list \<Rightarrow> nat \<Rightarrow> message list" where
  "thread_after reply g thread 0 = thread"
| "thread_after reply g thread (Suc n) =
     (let t = thread_after reply g thread n in t @ [turn reply g n t])"

definition emitted :: "(agent \<Rightarrow> message list \<Rightarrow> string) \<Rightarrow> group_chat \<Rightarrow> message list \<Rightarrow> nat \<Rightarrow> message" where
  "emitted reply g thread n = turn reply g n (thread_after reply g thread n)"

section \<open>A sample world\<close>

text \<open>
  One machine on which the program runs to the end, for the examples: a resume of one
  page of text and two page images, a file that is not a PDF, a file whose content does
  not parse, and agents that pass the text on, the last one adding the marker.
\<close>

definition sample_messages :: "message list" where
  "sample_messages =
     [\<lparr>source = ''user'', content = ''Improve this resume.''\<rparr>,
      \<lparr>source = ''ResumeDraftAgent'', content = ''Experience: built tools.''\<rparr>,
      \<lparr>source = ''ResumeEnhancementAgent'', content = ''Experience: built tools.''\<rparr>,
      \<lparr>source = ''ResumeConcisenessAgent'', content = ''Experience: built tools. FINAL''\<rparr>]"

definition sample_page :: "message list" where
  "sample_page =
     [\<lparr>source = ''user'', content = ''New Resume Content''\<rparr>,
      \<lparr>source = ''ResumeImageAgent'', content = ''<html>Experience</html>''\<rparr>]"

definition sample_world :: world where
  "sample_world =
     \<lparr>argv = [''resumeimprover.py'', ''cv.PDF''],
      console_input = Inr [],
      path_exists = (\<lambda>p. p \<in> set [''cv.PDF'', ''notes.txt'', ''broken.pdf'']),
      path_suffix = (\<lambda>p. if p = ''cv.PDF'' then ''.PDF''
                          else if p = ''notes.txt'' then ''.txt''
                          else if p = ''broken.pdf'' then ''.pdf'' else []),
      path_stem = (\<lambda>p. take (length p - 4) p),
      path_parent = (\<lambda>p. ''.''),
      path_join = (\<lambda>d f. if d = ''.'' then f else d @ ''/'' @ f),
      read_text = (\<lambda>p. if p = ''prompts/missing.txt''
                        then Inl (FileNotFoundError ''No such file or directory'')
                        else Inr (''Improve this resume.'' @ [newline])),
      read_pdf = (\<lambda>p. if p = ''cv.PDF'' then Inr [Inr ''Experience: built tools.'']
                       else Inl (LibraryError ''EOF marker not found'')),
      convert_from_path = (\<lambda>p d poppler. if p = ''cv.PDF'' then Inr [Image 1, Image 2]
                       else Inl (LibraryError ''Unable to get page count'')),
      venv_dir = None,
      os_name_nt = False,
      run_stream = (\<lambda>g task. stream_of
                      (map StreamMessage sample_messages
                       @ [StreamResult \<lparr>messages = sample_messages, stop_reason = None\<rparr>])),
      agent_run_stream = (\<lambda>a text img. stream_of
                      (map StreamMessage sample_page
                       @ [StreamResult \<lparr>messages = sample_page, stop_reason = None\<rparr>])),
      pdfkit_from_string = (\<lambda>html p. None)\<rparr>"

definition sample_improver :: resume_improver where
  "sample_improver =
     \<lparr>model_manager =
        \<lparr>config = \<lparr>api_key = ''test-key'', endpoint = ''https://e/'',
                    api_version = ''2025-01-01'', deployment_name = ''gpt-4o''\<rparr>,
         cached_client = None\<rparr>,
      prompt_manager = \<lparr>prompts_dir = ''prompts'', prompt_cache = []\<rparr>,
      resume_processor =
        \<lparr>rp_prompt_manager = \<lparr>prompts_dir = ''prompts'', prompt_cache = []\<rparr>,
         pdf_processor = \<lparr>default_dpi = 300, poppler_path = None\<rparr>\<rparr>,
      team = \<lparr>team_cache = None, image_agent_cache = None\<rparr>,
      next_handle = 0,
      calls = []\<rparr>"

definition sample_team :: group_chat where
  "sample_team = projr (fst (create_team sample_world sample_improver))"

definition sample_thread :: "message list" where
  "sample_thread = [\<lparr>source = ''user'', content = ''cv''\<rparr>]"

text \<open>
  Agents for the turn-taking group: the draft agent happens to write the marker at the
  head of its answer, the enhancement agent repeats what it was given, and the
  conciseness agent adds the marker at the end.
\<close>

definition sample_reply :: "agent \<Rightarrow> message list \<Rightarrow> string" where
  "sample_reply a thread =
     (if agent_name a = ''ResumeConcisenessAgent'' then content (last thread) @ '' FINAL''
      else if agent_name a = ''ResumeDraftAgent'' then ''FINAL draft: '' @ content (last thread)
      else content (last thread))"

section \<open>Properties of text\<close>

lemma contains_sublist: "contains s marker = sublist marker s"
  by (induction s) (simp_all add: sublist_Cons_right)

lemma contains_iff: "contains s marker = (\<exists>before after. s = before @ marker @ after)"
  by (simp add: contains_sublist sublist_def)

section \<open>Properties of the configuration\<close>

text \<open>
  C6. Constructing a configuration succeeds exactly when the four fields are non-empty,
  and the result then holds the four values; when it fails, the error names the first
  empty field in the order credential, endpoint, API version, deployment.
\<close>

theorem ModelConfig_valid_iff:
  "((ModelConfig k e v d = Inr c)
      = (k \<noteq> [] \<and> e \<noteq> [] \<and> v \<noteq> [] \<and> d \<noteq> []
         \<and> c = \<lparr>api_key = k, endpoint = e, api_version = v, deployment_name = d\<rparr>))
   \<and> (k = [] \<longrightarrow> ModelConfig k e v d = Inl (ValueError ''AZURE_OPENAI_API_KEY is required''))
   \<and> (k \<noteq> [] \<and> e = []
        \<longrightarrow> ModelConfig k e v d = Inl (ValueError ''AZURE_OPENAI_ENDPOINT is required''))
   \<and> (k \<noteq> [] \<and> e \<noteq> [] \<and> v = []
        \<longrightarrow> ModelConfig k e v d = Inl (ValueError ''AZURE_OPENAI_API_VERSION is required''))
   \<and> (k \<noteq> [] \<and> e \<noteq> [] \<and> v \<noteq> [] \<and> d = []
        \<longrightarrow> ModelConfig k e v d = Inl (ValueError ''AZURE_OPENAI_DEPLOYMENT_NAME is required''))"
  by (auto simp: ModelConfig_def post_init_def)

theorem ModelConfig_valid_iff_witness:
  "ModelConfig ''key'' ''https://e/'' ''2025-01-01'' ''gpt-4o''
     = Inr \<lparr>api_key = ''key'', endpoint = ''https://e/'', api_version = ''2025-01-01'',
            deployment_name = ''gpt-4o''\<rparr>
   \<and> ModelConfig [] [] ''2025-01-01'' ''gpt-4o''
     = Inl (ValueError ''AZURE_OPENAI_API_KEY is required'')
   \<and> ModelConfig ''key'' [] [] ''gpt-4o''
     = Inl (ValueError ''AZURE_OPENAI_ENDPOINT is required'')
   \<and> ModelConfig ''key'' ''https://e/'' [] []
     = Inl (ValueError ''AZURE_OPENAI_API_VERSION is required'')
   \<and> ModelConfig ''key'' ''https://e/'' ''2025-01-01'' []
     = Inl (ValueError ''AZURE_OPENAI_DEPLOYMENT_NAME is required'')"
  using ModelConfig_valid_iff [of "''key''" "''https://e/''" "''2025-01-01''" "''gpt-4o''"
      "\<lparr>api_key = ''key'', endpoint = ''https://e/'', api_version = ''2025-01-01'',
        deployment_name = ''gpt-4o''\<rparr>"]
    ModelConfig_valid_iff [of "[]" "[]" "''2025-01-01''" "''gpt-4o''"]
    ModelConfig_valid_iff [of "''key''" "[]" "[]" "''gpt-4o''"]
    ModelConfig_valid_iff [of "''key''" "''https://e/''" "[]" "[]"]
    ModelConfig_valid_iff [of "''key''" "''https://e/''" "''2025-01-01''" "[]"]
  by simp

section \<open>Properties of the model manager\<close>



lemma map_of_dict_update: "map_of (dict_update d kwargs) = map_of d ++ map_of (rev kwargs)"
  unfolding dict_update_def
proof (induction kwargs arbitrary: d)
  case Nil
  then show ?case by simp
next
  case (Cons x xs)
  obtain k v where x: "x = (k, v)" by (cases x)
  have "map_of (fold (\<lambda>(k, v). AList.update k v) xs (AList.update k v d))
        = map_of (AList.update k v d) ++ map_of (rev xs)"
    by (rule Cons.IH)
  then show ?case
    by (simp add: x update_conv' map_add_upd_left)
qed

lemma keys_dict_update: "fst ` set (dict_update d kwargs) = fst ` set d \<union> fst ` set kwargs"
  unfolding dict_update_def
proof (induction kwargs arbitrary: d)
  case Nil
  then show ?case by simp
next
  case (Cons x xs)
  then show ?case by (cases x) (auto simp: dom_update)
qed

lemma ModelConfig_kwargs_merged:
  assumes "d = dict_update [(''api_key'', k), (''endpoint'', e), (''api_version'', v), (''deployment_name'', n)] kwargs"
    and "set (map fst kwargs) \<subseteq> set field_names"
  shows "ModelConfig_kwargs d = ModelConfig (merged k kwargs ''api_key'') (merged e kwargs ''endpoint'')
           (merged v kwargs ''api_version'') (merged n kwargs ''deployment_name'')"
proof -
  have keys: "filter (\<lambda>k. k \<notin> set field_names) (map fst d) = []"
    using assms(2) keys_dict_update [of "[(''api_key'', k), (''endpoint'', e), (''api_version'', v), (''deployment_name'', n)]" kwargs]
    unfolding assms(1) by (auto simp: filter_empty_conv field_names_def)
  have look: "map_of d = map_of [(''api_key'', k), (''endpoint'', e), (''api_version'', v), (''deployment_name'', n)] ++ map_of (rev kwargs)"
    unfolding assms(1) by (rule map_of_dict_update)
  show ?thesis
    unfolding ModelConfig_kwargs_def keys look
    by (simp add: merged_def map_add_def split: option.splits)
qed

lemma ModelConfig_kwargs_unexpected:
  assumes "d = dict_update [(''api_key'', k), (''endpoint'', e), (''api_version'', v), (''deployment_name'', n)] kwargs"
    and "\<not> set (map fst kwargs) \<subseteq> set field_names"
  shows "\<exists>msg. ModelConfig_kwargs d = Inl (TypeError msg)"
proof -
  have "filter (\<lambda>k. k \<notin> set field_names) (map fst d) \<noteq> []"
    using assms(2) keys_dict_update [of "[(''api_key'', k), (''endpoint'', e), (''api_version'', v), (''deployment_name'', n)]" kwargs]
    unfolding assms(1) by (auto simp: filter_empty_conv)
  then show ?thesis
    unfolding ModelConfig_kwargs_def by (auto split: list.splits)
qed


lemma update_config_failure_frame:
  "fst (update_config m kwargs) = Inl e \<Longrightarrow> snd (update_config m kwargs) = m"
  by (auto simp: update_config_def Let_def split: sum.splits)

text \<open>
  C9. A failing update is atomic: whenever \<^verbatim>\<open>update_config\<close> raises, the manager is
  what it was before the call, stored configuration and cached client alike; and an update
  of known fields whose merge leaves a required field empty does raise, with a
  \<^verbatim>\<open>ValueError\<close>.
\<close>

theorem update_config_atomic:
  "(\<forall>e. fst (update_config m kwargs) = Inl e \<longrightarrow> snd (update_config m kwargs) = m)
   \<and> (set (map fst kwargs) \<subseteq> set field_names
        \<and> (merged (api_key (config m)) kwargs ''api_key'' = []
            \<or> merged (endpoint (config m)) kwargs ''endpoint'' = []
            \<or> merged (api_version (config m)) kwargs ''api_version'' = []
            \<or> merged (deployment_name (config m)) kwargs ''deployment_name'' = [])
        \<longrightarrow> (\<exists>msg. update_config m kwargs = (Inl (ValueError msg), m)))"
proof (intro conjI allI impI)
  fix e
  assume "fst (update_config m kwargs) = Inl e"
  then show "snd (update_config m kwargs) = m"
    by (rule update_config_failure_frame)
next
  assume a: "set (map fst kwargs) \<subseteq> set field_names
        \<and> (merged (api_key (config m)) kwargs ''api_key'' = []
            \<or> merged (endpoint (config m)) kwargs ''endpoint'' = []
            \<or> merged (api_version (config m)) kwargs ''api_version'' = []
            \<or> merged (deployment_name (config m)) kwargs ''deployment_name'' = [])"
  let ?k = "merged (api_key (config m)) kwargs ''api_key''"
  let ?e = "merged (endpoint (config m)) kwargs ''endpoint''"
  let ?v = "merged (api_version (config m)) kwargs ''api_version''"
  let ?n = "merged (deployment_name (config m)) kwargs ''deployment_name''"
  have kw: "ModelConfig_kwargs (dict_update [(''api_key'', api_key (config m)),
               (''endpoint'', endpoint (config m)),
               (''api_version'', api_version (config m)),
               (''deployment_name'', deployment_name (config m))] kwargs)
        = ModelConfig ?k ?e ?v ?n"
    using a by (intro ModelConfig_kwargs_merged) auto
  have "\<exists>msg. ModelConfig ?k ?e ?v ?n = Inl (ValueError msg)"
    using a by (auto simp: ModelConfig_def post_init_def)
  then obtain msg where "ModelConfig ?k ?e ?v ?n = Inl (ValueError msg)" ..
  then have "update_config m kwargs = (Inl (ValueError msg), m)"
    unfolding update_config_def Let_def kw by simp
  then show "\<exists>msg. update_config m kwargs = (Inl (ValueError msg), m)" ..
qed

theorem update_config_atomic_witness:
  "update_config
     \<lparr>config = \<lparr>api_key = ''key'', endpoint = ''https://e/'', api_version = ''2025-01-01'',
                deployment_name = ''gpt-4o''\<rparr>,
      cached_client = Some \<lparr>handle = 0, azure_deployment = ''gpt-4o'', model = ''gpt-4o'',
                client_api_key = ''key'', azure_endpoint = ''https://e/'',
                client_api_version = ''2025-01-01''\<rparr>\<rparr>
     [(''endpoint'', [])]
   = (Inl (ValueError ''AZURE_OPENAI_ENDPOINT is required''),
      \<lparr>config = \<lparr>api_key = ''key'', endpoint = ''https://e/'', api_version = ''2025-01-01'',
                deployment_name = ''gpt-4o''\<rparr>,
      cached_client = Some \<lparr>handle = 0, azure_deployment = ''gpt-4o'', model = ''gpt-4o'',
                client_api_key = ''key'', azure_endpoint = ''https://e/'',
                client_api_version = ''2025-01-01''\<rparr>\<rparr>)"
proof -
  let ?m = "\<lparr>config = \<lparr>api_key = ''key'', endpoint = ''https://e/'', api_version = ''2025-01-01'',
                deployment_name = ''gpt-4o''\<rparr>,
      cached_client = Some \<lparr>handle = 0, azure_deployment = ''gpt-4o'', model = ''gpt-4o'',
                client_api_key = ''key'', azure_endpoint = ''https://e/'',
                client_api_version = ''2025-01-01''\<rparr>\<rparr>"
  have keys: "set (map fst [(''endpoint'', [])]) \<subseteq> set field_names"
    by (simp add: field_names_def)
  have empty: "merged (endpoint (config ?m)) [(''endpoint'', [])] ''endpoint'' = []"
    by (simp add: merged_def)
  from update_config_atomic [of ?m "[(''endpoint'', [])]"] keys empty
  obtain msg where u: "update_config ?m [(''endpoint'', [])] = (Inl (ValueError msg), ?m)"
    by blast
  have "fst (update_config ?m [(''endpoint'', [])]) = Inl (ValueError ''AZURE_OPENAI_ENDPOINT is required'')"
    by (simp add: update_config_def dict_update_def ModelConfig_kwargs_def field_names_def
        ModelConfig_def post_init_def AList.update.simps)
  with u show ?thesis by simp
qed


lemma update_config_success:
  assumes "update_config m kwargs = (Inr (), m')"
  shows "set (map fst kwargs) \<subseteq> set field_names"
    and "m' = \<lparr>config = \<lparr>api_key = merged (api_key (config m)) kwargs ''api_key'',
                  endpoint = merged (endpoint (config m)) kwargs ''endpoint'',
                  api_version = merged (api_version (config m)) kwargs ''api_version'',
                  deployment_name = merged (deployment_name (config m)) kwargs ''deployment_name''\<rparr>,
                cached_client = None\<rparr>"
proof -
  let ?d = "dict_update [(''api_key'', api_key (config m)),
               (''endpoint'', endpoint (config m)),
               (''api_version'', api_version (config m)),
               (''deployment_name'', deployment_name (config m))] kwargs"
  from assms obtain c where c: "ModelConfig_kwargs ?d = Inr c"
    and m': "m' = m\<lparr>config := c, cached_client := None\<rparr>"
    by (auto simp: update_config_def Let_def split: sum.splits)
  show keys: "set (map fst kwargs) \<subseteq> set field_names"
  proof (rule ccontr)
    assume "\<not> set (map fst kwargs) \<subseteq> set field_names"
    from ModelConfig_kwargs_unexpected [OF refl this, of "api_key (config m)"
        "endpoint (config m)" "api_version (config m)" "deployment_name (config m)"] c
    show False by auto
  qed
  from ModelConfig_kwargs_merged [OF refl keys] c
  have "ModelConfig (merged (api_key (config m)) kwargs ''api_key'')
          (merged (endpoint (config m)) kwargs ''endpoint'')
          (merged (api_version (config m)) kwargs ''api_version'')
          (merged (deployment_name (config m)) kwargs ''deployment_name'') = Inr c"
    by simp
  then have "c = \<lparr>api_key = merged (api_key (config m)) kwargs ''api_key'',
                  endpoint = merged (endpoint (config m)) kwargs ''endpoint'',
                  api_version = merged (api_version (config m)) kwargs ''api_version'',
                  deployment_name = merged (deployment_name (config m)) kwargs ''deployment_name''\<rparr>"
    by (auto simp: ModelConfig_def post_init_def split: if_splits)
  with m' show "m' = \<lparr>config = \<lparr>api_key = merged (api_key (config m)) kwargs ''api_key'',
                  endpoint = merged (endpoint (config m)) kwargs ''endpoint'',
                  api_version = merged (api_version (config m)) kwargs ''api_version'',
                  deployment_name = merged (deployment_name (config m)) kwargs ''deployment_name''\<rparr>,
                cached_client = None\<rparr>"
    by simp
qed


text \<open>
  C5. Two reads of the client with no update between them return the same handle and
  create no object. After a successful update the stored configuration is the merge of
  the given fields over the prior ones, a field that is not named keeping its value; the
  cache is empty; and the next read creates a handle with a new identity, built from the
  merged configuration.
\<close>

theorem client_cached_until_update:
  assumes wf: "handles_below h m"
    and g1: "get_client h m = (c1, h1, m1)"
    and g2: "get_client h1 m1 = (c2, h2, m2)"
    and up: "update_config m2 kwargs = (Inr (), m3)"
    and g3: "get_client h2 m3 = (c3, h3, m4)"
  shows "c2 = c1 \<and> h2 = h1 \<and> m2 = m1
    \<and> config m3 = \<lparr>api_key = merged (api_key (config m)) kwargs ''api_key'',
                    endpoint = merged (endpoint (config m)) kwargs ''endpoint'',
                    api_version = merged (api_version (config m)) kwargs ''api_version'',
                    deployment_name = merged (deployment_name (config m)) kwargs ''deployment_name''\<rparr>
    \<and> (\<forall>name prior. name \<notin> fst ` set kwargs \<longrightarrow> merged prior kwargs name = prior)
    \<and> cached_client m3 = None
    \<and> handle c3 = h2 \<and> handle c3 \<noteq> handle c1 \<and> h3 = Suc h2
    \<and> cached_client m4 = Some c3
    \<and> client_api_key c3 = api_key (config m3)
    \<and> azure_endpoint c3 = endpoint (config m3)
    \<and> client_api_version c3 = api_version (config m3)
    \<and> azure_deployment c3 = deployment_name (config m3)
    \<and> model c3 = deployment_name (config m3)"
proof -
  have c1: "cached_client m1 = Some c1" and cfg1: "config m1 = config m" and lt: "handle c1 < h1"
    using wf g1 by (auto simp: get_client_def handles_below_def create_client_def Let_def split: option.splits)
  have same: "c2 = c1 \<and> h2 = h1 \<and> m2 = m1"
    using g2 c1 by (simp add: get_client_def)
  have m3: "m3 = \<lparr>config = \<lparr>api_key = merged (api_key (config m2)) kwargs ''api_key'',
                  endpoint = merged (endpoint (config m2)) kwargs ''endpoint'',
                  api_version = merged (api_version (config m2)) kwargs ''api_version'',
                  deployment_name = merged (deployment_name (config m2)) kwargs ''deployment_name''\<rparr>,
                cached_client = None\<rparr>"
    using update_config_success(2) [OF up] .
  have frame: "\<forall>name prior. name \<notin> fst ` set kwargs \<longrightarrow> merged prior kwargs name = prior"
    by (force simp: merged_def split: option.splits dest: map_of_SomeD)
  have new: "c3 = create_client h2 m3 \<and> h3 = Suc h2 \<and> cached_client m4 = Some c3"
    using g3 m3 by (auto simp: get_client_def Let_def)
  show ?thesis
    using same m3 frame new lt cfg1 by (simp add: create_client_def)
qed

theorem client_cached_until_update_witness:
  "handles_below 0
     \<lparr>config = \<lparr>api_key = ''test-key'', endpoint = ''https://e/'',
                api_version = ''2025-01-01'', deployment_name = ''gpt-4o''\<rparr>,
      cached_client = None\<rparr>
   \<and> get_client 0
       \<lparr>config = \<lparr>api_key = ''test-key'', endpoint = ''https://e/'',
                  api_version = ''2025-01-01'', deployment_name = ''gpt-4o''\<rparr>,
        cached_client = None\<rparr>
     = (\<lparr>handle = 0, azure_deployment = ''gpt-4o'', model = ''gpt-4o'',
         client_api_key = ''test-key'', azure_endpoint = ''https://e/'',
         client_api_version = ''2025-01-01''\<rparr>, 1,
        \<lparr>config = \<lparr>api_key = ''test-key'', endpoint = ''https://e/'',
                  api_version = ''2025-01-01'', deployment_name = ''gpt-4o''\<rparr>,
         cached_client = Some \<lparr>handle = 0, azure_deployment = ''gpt-4o'', model = ''gpt-4o'',
           client_api_key = ''test-key'', azure_endpoint = ''https://e/'',
           client_api_version = ''2025-01-01''\<rparr>\<rparr>)
   \<and> update_config
       \<lparr>config = \<lparr>api_key = ''test-key'', endpoint = ''https://e/'',
                  api_version = ''2025-01-01'', deployment_name = ''gpt-4o''\<rparr>,
        cached_client = Some \<lparr>handle = 0, azure_deployment = ''gpt-4o'', model = ''gpt-4o'',
           client_api_key = ''test-key'', azure_endpoint = ''https://e/'',
           client_api_version = ''2025-01-01''\<rparr>\<rparr>
       [(''api_key'', ''new-key''), (''deployment_name'', ''gpt-4-turbo'')]
     = (Inr (),
        \<lparr>config = \<lparr>api_key = ''new-key'', endpoint = ''https://e/'',
                  api_version = ''2025-01-01'', deployment_name = ''gpt-4-turbo''\<rparr>,
         cached_client = None\<rparr>)
   \<and> fst (get_client 1
       \<lparr>config = \<lparr>api_key = ''new-key'', endpoint = ''https://e/'',
                  api_version = ''2025-01-01'', deployment_name = ''gpt-4-turbo''\<rparr>,
        cached_client = None\<rparr>)
     = \<lparr>handle = 1, azure_deployment = ''gpt-4-turbo'', model = ''gpt-4-turbo'',
         client_api_key = ''new-key'', azure_endpoint = ''https://e/'',
         client_api_version = ''2025-01-01''\<rparr>"
proof -
  let ?cfg = "\<lparr>api_key = ''test-key'', endpoint = ''https://e/'',
                api_version = ''2025-01-01'', deployment_name = ''gpt-4o''\<rparr>"
  let ?cfg' = "\<lparr>api_key = ''new-key'', endpoint = ''https://e/'',
                api_version = ''2025-01-01'', deployment_name = ''gpt-4-turbo''\<rparr>"
  let ?c1 = "\<lparr>handle = 0, azure_deployment = ''gpt-4o'', model = ''gpt-4o'',
         client_api_key = ''test-key'', azure_endpoint = ''https://e/'',
         client_api_version = ''2025-01-01''\<rparr>"
  let ?c3 = "\<lparr>handle = 1, azure_deployment = ''gpt-4-turbo'', model = ''gpt-4-turbo'',
         client_api_key = ''new-key'', azure_endpoint = ''https://e/'',
         client_api_version = ''2025-01-01''\<rparr>"
  let ?m = "\<lparr>config = ?cfg, cached_client = None\<rparr>"
  let ?m1 = "\<lparr>config = ?cfg, cached_client = Some ?c1\<rparr>"
  let ?m3 = "\<lparr>config = ?cfg', cached_client = None\<rparr>"
  let ?m4 = "\<lparr>config = ?cfg', cached_client = Some ?c3\<rparr>"
  let ?kw = "[(''api_key'', ''new-key''), (''deployment_name'', ''gpt-4-turbo'')]"
  have wf: "handles_below 0 ?m"
    by (simp add: handles_below_def)
  have g1: "get_client 0 ?m = (?c1, 1, ?m1)"
    by (simp add: get_client_def create_client_def Let_def)
  have g2: "get_client 1 ?m1 = (?c1, 1, ?m1)"
    by (simp add: get_client_def)
  have up: "update_config ?m1 ?kw = (Inr (), ?m3)"
    by (simp add: update_config_def dict_update_def ModelConfig_kwargs_def field_names_def
        ModelConfig_def post_init_def)
  have g3: "get_client 1 ?m3 = (?c3, 2, ?m4)"
    by (simp add: get_client_def create_client_def Let_def)
  from client_cached_until_update [OF wf g1 g2 up g3]
  have "handle ?c3 \<noteq> handle ?c1" by blast
  with wf g1 up g3 show ?thesis by simp
qed

section \<open>Properties of path validation\<close>




section \<open>Properties of extraction\<close>





section \<open>Properties of the image persister\<close>

lemma save_images_fold:
  "fold (\<lambda>(i, img) (made, saved_paths).
             (let filename = base @ ''_'' @ format_02d i @ ''.png'';
                  filepath = path_join w d filename
              in (made @ [SaveImage img filepath ''PNG''], saved_paths @ [filepath])))
        (enumerate n images) (made, saved)
   = (made @ map (\<lambda>(i, img). SaveImage img (path_join w d (base @ ''_'' @ format_02d i @ ''.png'')) ''PNG'')
               (enumerate n images),
      saved @ map (\<lambda>i. path_join w d (base @ ''_'' @ format_02d i @ ''.png''))
               (map fst (enumerate n images)))"
  by (induction images arbitrary: n made saved) (simp_all add: Let_def)

lemma save_images_eq:
  "save_images w images d base =
     (Mkdir d True True
        # map (\<lambda>(i, img). SaveImage img (path_join w d (base @ ''_'' @ format_02d i @ ''.png'')) ''PNG'')
            (enumerate 1 images),
      map (\<lambda>i. path_join w d (base @ ''_'' @ format_02d i @ ''.png'')) [1..<Suc (length images)])"
  unfolding save_images_def save_images_fold by simp

lemma digit_char_0: "digit_char 0 = CHR ''0''"
  by code_simp

lemma decimal_small: "n < 10 \<Longrightarrow> decimal n = [digit_char n]"
  by (subst decimal.simps) simp

lemma length_decimal_ge: "10 \<le> n \<Longrightarrow> 2 \<le> length (decimal n)"
  by (subst decimal.simps) (simp add: Suc_le_eq decimal.simps [of "n div 10"])

lemma decimal_two: "10 \<le> n \<Longrightarrow> n < 100 \<Longrightarrow> decimal n = [digit_char (n div 10), digit_char (n mod 10)]"
  by (subst decimal.simps) (simp add: decimal_small)

lemma length_decimal_three: "100 \<le> n \<Longrightarrow> 3 \<le> length (decimal n)"
proof -
  assume a: "100 \<le> n"
  then have "10 \<le> n div 10" by simp
  from length_decimal_ge [OF this] a show ?thesis
    by (subst decimal.simps) simp
qed

lemma format_02d_small: "i < 100 \<Longrightarrow> format_02d i = [digit_char (i div 10), digit_char (i mod 10)]"
proof (cases "i < 10")
  case True
  then show ?thesis
    by (simp add: format_02d_def decimal_small digit_char_0 Let_def)
next
  case False
  assume "i < 100"
  with False show ?thesis
    by (simp add: format_02d_def decimal_two Let_def)
qed

lemma format_02d_large: "100 \<le> i \<Longrightarrow> format_02d i = decimal i"
  using length_decimal_three [of i] by (simp add: format_02d_def Let_def)

text \<open>
  C8, as amended. Saving a list of images first creates the directory (with its parents,
  and without complaint when it exists), then writes the i-th image, counting from 1, to
  the file \<^verbatim>\<open>base_index.png\<close> in that directory and returns the paths written, in the
  order of the images; for the empty list it only creates the directory and returns the
  empty list. The index is the number in decimal, with zeros on the left up to a width of
  two: exactly two digits below 100, and the three or more digits of the number from 100
  on.
\<close>

theorem save_images_numbered:
  "save_images w images d base =
     (Mkdir d True True
        # map (\<lambda>(i, img). SaveImage img (path_join w d (base @ ''_'' @ format_02d i @ ''.png'')) ''PNG'')
            (enumerate 1 images),
      map (\<lambda>i. path_join w d (base @ ''_'' @ format_02d i @ ''.png'')) [1..<Suc (length images)])
   \<and> save_images w [] d base = ([Mkdir d True True], [])
   \<and> (\<forall>i<100. format_02d i = [digit_char (i div 10), digit_char (i mod 10)])
   \<and> (\<forall>i\<ge>100. format_02d i = decimal i \<and> 3 \<le> length (format_02d i))"
  using save_images_eq [of w images d base] save_images_eq [of w "[]" d base]
  by (simp add: format_02d_small format_02d_large length_decimal_three)

theorem save_images_numbered_witness:
  "save_images sample_world [Image 1, Image 2] ''out'' ''page''
     = ([Mkdir ''out'' True True,
         SaveImage (Image 1) ''out/page_01.png'' ''PNG'',
         SaveImage (Image 2) ''out/page_02.png'' ''PNG''],
        [''out/page_01.png'', ''out/page_02.png''])
   \<and> (1::nat) < 100 \<and> format_02d 1 = ''01'' \<and> (100::nat) \<le> 123 \<and> format_02d 123 = ''123''"
proof -
  note t = save_images_numbered [of sample_world "[Image 1, Image 2]" "''out''" "''page''"]
  have lt: "(1::nat) < 100" and ge: "(100::nat) \<le> 123"
    by simp_all
  from t lt have "format_02d 1 = [digit_char (1 div 10), digit_char (1 mod 10)]"
    by blast
  also have "\<dots> = ''01''"
    by code_simp
  finally have f1: "format_02d 1 = ''01''" .
  from t ge have "format_02d 123 = decimal 123"
    by blast
  also have "\<dots> = ''123''"
    by code_simp
  finally have f3: "format_02d 123 = ''123''" .
  from t have "save_images sample_world [Image 1, Image 2] ''out'' ''page''
    = (Mkdir ''out'' True True
        # map (\<lambda>(i, img). SaveImage img
                 (path_join sample_world ''out'' (''page'' @ ''_'' @ format_02d i @ ''.png'')) ''PNG'')
            (enumerate 1 [Image 1, Image 2]),
       map (\<lambda>i. path_join sample_world ''out'' (''page'' @ ''_'' @ format_02d i @ ''.png''))
         [1..<Suc (length [Image 1, Image 2])])"
    by blast
  also have "\<dots> = ([Mkdir ''out'' True True,
         SaveImage (Image 1) ''out/page_01.png'' ''PNG'',
         SaveImage (Image 2) ''out/page_02.png'' ''PNG''],
        [''out/page_01.png'', ''out/page_02.png''])"
    by code_simp
  finally show ?thesis
    using lt ge f1 f3 by blast
qed

text \<open>
  With a hundred images the last file is \<^verbatim>\<open>page_100.png\<close>: its index has three digits.
\<close>

theorem save_images_three_digits:
  "snd (save_images sample_world (replicate 100 (Image 0)) ''out'' ''page'') ! 99
     = ''out/page_100.png''
   \<and> length (format_02d 100) = 3"
proof -
  have n: "99 < length [1..<Suc (length (replicate 100 (Image 0)))]"
    and m: "[1..<Suc (length (replicate 100 (Image 0)))] ! 99 = 100"
    by simp_all
  have "snd (save_images sample_world (replicate 100 (Image 0)) ''out'' ''page'') ! 99
        = path_join sample_world ''out'' (''page'' @ ''_'' @ format_02d 100 @ ''.png'')"
    unfolding save_images_eq snd_conv nth_map [OF n] m ..
  also have "\<dots> = ''out/page_100.png''"
    by code_simp
  finally have "snd (save_images sample_world (replicate 100 (Image 0)) ''out'' ''page'') ! 99
     = ''out/page_100.png''" .
  moreover have "length (format_02d 100) = 3"
    by code_simp
  ultimately show ?thesis ..
qed

section \<open>Properties of the turn-taking group\<close>

lemma length_thread_after: "length (thread_after reply g thread n) = length thread + n"
  by (induction n) (simp_all add: Let_def)

lemma thread_after_Suc: "thread_after reply g thread (Suc n)
    = thread_after reply g thread n @ [emitted reply g thread n]"
  by (simp add: emitted_def Let_def)

lemma round_robin_stops:
  assumes "round_robin reply g k thread = Some final"
  shows "\<forall>t0. thread = thread_after reply g t0 k \<longrightarrow>
           (\<exists>n\<ge>k. final = thread_after reply g t0 (Suc n)
              \<and> text_mention (termination_condition g) (emitted reply g t0 n)
              \<and> (\<forall>j. k \<le> j \<and> j < n \<longrightarrow>
                    \<not> text_mention (termination_condition g) (emitted reply g t0 j)))"
  using assms
proof (rule round_robin.raw_induct [rotated,
      where P = "\<lambda>reply g k thread final. \<forall>t0. thread = thread_after reply g t0 k \<longrightarrow>
           (\<exists>n\<ge>k. final = thread_after reply g t0 (Suc n)
              \<and> text_mention (termination_condition g) (emitted reply g t0 n)
              \<and> (\<forall>j. k \<le> j \<and> j < n \<longrightarrow>
                    \<not> text_mention (termination_condition g) (emitted reply g t0 j)))"],
    goal_cases)
  case (1 rr reply g k thread final)
  show ?case
  proof (intro allI impI)
    fix t0
    assume t: "thread = thread_after reply g t0 k"
    then have m: "turn reply g k thread = emitted reply g t0 k"
      by (simp add: emitted_def)
    show "\<exists>n\<ge>k. final = thread_after reply g t0 (Suc n)
              \<and> text_mention (termination_condition g) (emitted reply g t0 n)
              \<and> (\<forall>j. k \<le> j \<and> j < n \<longrightarrow>
                    \<not> text_mention (termination_condition g) (emitted reply g t0 j))"
    proof (cases "text_mention (termination_condition g) (emitted reply g t0 k)")
      case True
      with 1(2) m t have "final = thread_after reply g t0 (Suc k)"
        by (simp add: Let_def thread_after_Suc)
      with True show ?thesis by auto
    next
      case False
      with 1(2) m t have "rr reply g (Suc k) (thread_after reply g t0 (Suc k)) = Some final"
        by (simp add: Let_def thread_after_Suc)
      from 1(1) [OF this, rule_format, of t0]
      have "\<exists>n\<ge>Suc k. final = thread_after reply g t0 (Suc n)
              \<and> text_mention (termination_condition g) (emitted reply g t0 n)
              \<and> (\<forall>j. Suc k \<le> j \<and> j < n \<longrightarrow>
                    \<not> text_mention (termination_condition g) (emitted reply g t0 j))"
        by (simp del: thread_after.simps)
      then obtain n where n: "Suc k \<le> n"
        "final = thread_after reply g t0 (Suc n)"
        "text_mention (termination_condition g) (emitted reply g t0 n)"
        "\<forall>j. Suc k \<le> j \<and> j < n \<longrightarrow>
              \<not> text_mention (termination_condition g) (emitted reply g t0 j)"
        by (elim exE conjE) 
      have "\<forall>j. k \<le> j \<and> j < n \<longrightarrow>
              \<not> text_mention (termination_condition g) (emitted reply g t0 j)"
      proof (intro allI impI)
        fix j assume j: "k \<le> j \<and> j < n"
        show "\<not> text_mention (termination_condition g) (emitted reply g t0 j)"
        proof (cases "j = k")
          case True
          with False show ?thesis by simp
        next
          case False
          with j n(4) show ?thesis by simp
        qed
      qed
      with n show ?thesis
        by (intro exI [of _ n]) simp
    qed
  qed
qed

lemma round_robin_reaches:
  assumes "text_mention (termination_condition g) (emitted reply g t0 n)"
    and "\<forall>j. k \<le> j \<and> j < n \<longrightarrow> \<not> text_mention (termination_condition g) (emitted reply g t0 j)"
    and "k \<le> n"
  shows "round_robin reply g k (thread_after reply g t0 k) = Some (thread_after reply g t0 (Suc n))"
  using assms(2,3)
proof (induction "n - k" arbitrary: k)
  case 0
  then have "k = n" by simp
  with assms(1) show ?case
    by (subst round_robin.simps) (simp add: Let_def emitted_def)
next
  case (Suc d)
  then have lt: "k < n" by simp
  with Suc.prems have no: "\<not> text_mention (termination_condition g) (emitted reply g t0 k)"
    by simp
  have "round_robin reply g (Suc k) (thread_after reply g t0 (Suc k))
        = Some (thread_after reply g t0 (Suc n))"
    using Suc.hyps(2) Suc.prems lt by (intro Suc.hyps(1)) auto
  with no show ?case
    by (subst round_robin.simps) (simp add: Let_def emitted_def)
qed

lemma round_robin_iff:
  "(round_robin reply g 0 thread = Some final)
   = (\<exists>n. final = thread_after reply g thread (Suc n)
         \<and> text_mention (termination_condition g) (emitted reply g thread n)
         \<and> (\<forall>j<n. \<not> text_mention (termination_condition g) (emitted reply g thread j)))"
proof
  assume "round_robin reply g 0 thread = Some final"
  from round_robin_stops [OF this, rule_format, of thread]
  show "\<exists>n. final = thread_after reply g thread (Suc n)
         \<and> text_mention (termination_condition g) (emitted reply g thread n)
         \<and> (\<forall>j<n. \<not> text_mention (termination_condition g) (emitted reply g thread j))"
    by auto
next
  assume "\<exists>n. final = thread_after reply g thread (Suc n)
         \<and> text_mention (termination_condition g) (emitted reply g thread n)
         \<and> (\<forall>j<n. \<not> text_mention (termination_condition g) (emitted reply g thread j))"
  then obtain n where n: "final = thread_after reply g thread (Suc n)"
    "text_mention (termination_condition g) (emitted reply g thread n)"
    "\<forall>j<n. \<not> text_mention (termination_condition g) (emitted reply g thread j)"
    by blast
  from round_robin_reaches [of g reply thread n 0] n
  show "round_robin reply g 0 thread = Some final"
    by simp
qed


lemma assistant_agent_name:
  "assistant_agent w s name prompt_name = (Inr a, s') \<Longrightarrow> agent_name a = name"
  by (auto simp: assistant_agent_def Let_def split: prod.splits sum.splits)

lemma create_team_fresh:
  assumes "team_cache (team s) = None" and "create_team w s = (Inr g, s')"
  shows "map agent_name (participants g)
           = [''ResumeDraftAgent'', ''ResumeEnhancementAgent'', ''ResumeConcisenessAgent'']"
    and "termination_condition g
           = \<lparr>mention_text = ''FINAL'', sources = [''ResumeConcisenessAgent'']\<rparr>"
proof -
  from assms obtain a1 s1 a2 s2 a3 s3 where
    a: "create_draft_agent w s = (Inr a1, s1)"
       "create_enhancement_agent w s1 = (Inr a2, s2)"
       "create_conciseness_agent w s2 = (Inr a3, s3)"
    and g: "g = \<lparr>participants = [a1, a2, a3],
                termination_condition =
                  \<lparr>mention_text = ''FINAL'', sources = [''ResumeConcisenessAgent'']\<rparr>\<rparr>"
    by (auto simp: create_team_def Let_def split: prod.splits sum.splits)
  from a have "agent_name a1 = ''ResumeDraftAgent''"
    "agent_name a2 = ''ResumeEnhancementAgent''"
    "agent_name a3 = ''ResumeConcisenessAgent''"
    unfolding create_draft_agent_def create_enhancement_agent_def create_conciseness_agent_def
    by (auto dest: assistant_agent_name)
  with g show "map agent_name (participants g)
           = [''ResumeDraftAgent'', ''ResumeEnhancementAgent'', ''ResumeConcisenessAgent'']"
    and "termination_condition g
           = \<lparr>mention_text = ''FINAL'', sources = [''ResumeConcisenessAgent'']\<rparr>"
    by simp_all
qed

lemma mod_3_cases: "(n::nat) mod 3 = 0 \<or> n mod 3 = 1 \<or> n mod 3 = 2"
  by arith

lemma source_emitted:
  assumes "map agent_name (participants g) = names" and "names \<noteq> []"
  shows "source (emitted reply g thread n) = names ! (n mod length names)"
proof -
  have l: "length (participants g) = length names"
    using assms(1) by (metis length_map)
  have "n mod length names < length (participants g)"
    using assms(2) l by simp
  then have "agent_name (participants g ! (n mod length names)) = names ! (n mod length names)"
    using assms(1) by (metis nth_map)
  then show ?thesis
    by (simp add: emitted_def turn_def Let_def l)
qed

lemma text_mention_created:
  assumes "team_cache (team s) = None" and "create_team w s = (Inr g, s')"
  shows "text_mention (termination_condition g) (emitted reply g thread n)
         = (n mod 3 = 2 \<and> contains (content (emitted reply g thread n)) ''FINAL'')"
proof -
  note c = create_team_fresh [OF assms]
  have src: "source (emitted reply g thread n)
      = [''ResumeDraftAgent'', ''ResumeEnhancementAgent'', ''ResumeConcisenessAgent'']
          ! (n mod 3)"
    using source_emitted [OF c(1), of reply thread n] by simp
  from mod_3_cases [of n] show ?thesis
    by (elim disjE) (simp_all add: text_mention_def c(2) src)
qed

text \<open>
  C1. In the team that \<^verbatim>\<open>create_team\<close> builds, the turns go to the draft, the
  enhancement and the conciseness agent in this order, round after round. The run stops
  exactly at the first message of the conciseness agent that contains \<^verbatim>\<open>FINAL\<close>, and
  returns the conversation up to that message; the messages before it did not stop it,
  whatever the draft and the enhancement agent wrote; and no run ends on a message of
  these two.
\<close>

theorem final_marker_only_from_conciseness:
  assumes "team_cache (team s) = None" and "create_team w s = (Inr g, s')"
  shows "map agent_name (participants g)
           = [''ResumeDraftAgent'', ''ResumeEnhancementAgent'', ''ResumeConcisenessAgent'']
    \<and> (\<forall>n. source (emitted reply g thread n)
             = [''ResumeDraftAgent'', ''ResumeEnhancementAgent'', ''ResumeConcisenessAgent'']
                 ! (n mod 3))
    \<and> (\<forall>final. (round_robin reply g 0 thread = Some final)
          = (\<exists>n. final = thread_after reply g thread (Suc n)
                \<and> n mod 3 = 2 \<and> contains (content (emitted reply g thread n)) ''FINAL''
                \<and> (\<forall>j<n. \<not> (j mod 3 = 2
                            \<and> contains (content (emitted reply g thread j)) ''FINAL''))))
    \<and> (\<forall>n. n mod 3 \<noteq> 2
          \<longrightarrow> round_robin reply g 0 thread \<noteq> Some (thread_after reply g thread (Suc n)))"
proof -
  note c = create_team_fresh [OF assms]
  note tm = text_mention_created [OF assms, of reply thread]
  have src: "\<forall>n. source (emitted reply g thread n)
             = [''ResumeDraftAgent'', ''ResumeEnhancementAgent'', ''ResumeConcisenessAgent'']
                 ! (n mod 3)"
    using source_emitted [OF c(1), of reply thread] by simp
  have iff: "\<forall>final. (round_robin reply g 0 thread = Some final)
          = (\<exists>n. final = thread_after reply g thread (Suc n)
                \<and> n mod 3 = 2 \<and> contains (content (emitted reply g thread n)) ''FINAL''
                \<and> (\<forall>j<n. \<not> (j mod 3 = 2
                            \<and> contains (content (emitted reply g thread j)) ''FINAL'')))"
    unfolding round_robin_iff tm by simp
  have never: "\<forall>n. n mod 3 \<noteq> 2
          \<longrightarrow> round_robin reply g 0 thread \<noteq> Some (thread_after reply g thread (Suc n))"
  proof (intro allI impI notI)
    fix n
    assume n: "n mod 3 \<noteq> 2"
      and r: "round_robin reply g 0 thread = Some (thread_after reply g thread (Suc n))"
    from r iff obtain n' where n': "thread_after reply g thread (Suc n)
        = thread_after reply g thread (Suc n')" "n' mod 3 = 2"
      by blast
    from n'(1) have "length (thread_after reply g thread (Suc n))
        = length (thread_after reply g thread (Suc n'))"
      by simp
    then have "n = n'"
      unfolding length_thread_after by simp
    with n n'(2) show False by simp
  qed
  from c(1) src iff never show ?thesis by blast
qed


theorem final_marker_only_from_conciseness_witness:
  "team_cache (team sample_improver) = None
   \<and> create_team sample_world sample_improver
       = (Inr sample_team, snd (create_team sample_world sample_improver))
   \<and> source (emitted sample_reply sample_team sample_thread 0) = ''ResumeDraftAgent''
   \<and> contains (content (emitted sample_reply sample_team sample_thread 0)) ''FINAL''
   \<and> round_robin sample_reply sample_team 0 sample_thread
       \<noteq> Some (thread_after sample_reply sample_team sample_thread (Suc 0))
   \<and> round_robin sample_reply sample_team 0 sample_thread
       = Some [\<lparr>source = ''user'', content = ''cv''\<rparr>,
               \<lparr>source = ''ResumeDraftAgent'', content = ''FINAL draft: cv''\<rparr>,
               \<lparr>source = ''ResumeEnhancementAgent'', content = ''FINAL draft: cv''\<rparr>,
               \<lparr>source = ''ResumeConcisenessAgent'', content = ''FINAL draft: cv FINAL''\<rparr>]"
proof -
  have h1: "team_cache (team sample_improver) = None"
    by (simp add: sample_improver_def)
  have "\<not> isl (fst (create_team sample_world sample_improver))"
    by code_simp
  then have h2: "create_team sample_world sample_improver
       = (Inr sample_team, snd (create_team sample_world sample_improver))"
    by (simp add: sample_team_def prod_eq_iff)
  note t = final_marker_only_from_conciseness [OF h1 h2, of sample_reply sample_thread]
  from t have src: "source (emitted sample_reply sample_team sample_thread 0)
      = [''ResumeDraftAgent'', ''ResumeEnhancementAgent'', ''ResumeConcisenessAgent''] ! (0 mod 3)"
    by blast
  have draft: "contains (content (emitted sample_reply sample_team sample_thread 0)) ''FINAL''"
    by code_simp
  from t have "(0::nat) mod 3 \<noteq> 2 \<longrightarrow> round_robin sample_reply sample_team 0 sample_thread
       \<noteq> Some (thread_after sample_reply sample_team sample_thread (Suc 0))"
    by blast
  then have never: "round_robin sample_reply sample_team 0 sample_thread
       \<noteq> Some (thread_after sample_reply sample_team sample_thread (Suc 0))"
    by simp
  have last: "contains (content (emitted sample_reply sample_team sample_thread 2)) ''FINAL''"
    by code_simp
  have before: "\<forall>j<2. \<not> ((j::nat) mod 3 = 2
      \<and> contains (content (emitted sample_reply sample_team sample_thread j)) ''FINAL'')"
    by auto
  from t have "(round_robin sample_reply sample_team 0 sample_thread
       = Some (thread_after sample_reply sample_team sample_thread (Suc 2)))
     = (\<exists>n. thread_after sample_reply sample_team sample_thread (Suc 2)
              = thread_after sample_reply sample_team sample_thread (Suc n)
          \<and> n mod 3 = 2
          \<and> contains (content (emitted sample_reply sample_team sample_thread n)) ''FINAL''
          \<and> (\<forall>j<n. \<not> (j mod 3 = 2
                \<and> contains (content (emitted sample_reply sample_team sample_thread j)) ''FINAL'')))"
    by blast
  moreover have "\<exists>n. thread_after sample_reply sample_team sample_thread (Suc 2)
              = thread_after sample_reply sample_team sample_thread (Suc n)
          \<and> n mod 3 = 2
          \<and> contains (content (emitted sample_reply sample_team sample_thread n)) ''FINAL''
          \<and> (\<forall>j<n. \<not> (j mod 3 = 2
                \<and> contains (content (emitted sample_reply sample_team sample_thread j)) ''FINAL''))"
  proof (intro exI [of _ 2] conjI)
    show "thread_after sample_reply sample_team sample_thread (Suc 2)
              = thread_after sample_reply sample_team sample_thread (Suc 2)" ..
    show "(2::nat) mod 3 = 2" by simp
  qed (rule last, rule before)
  ultimately have "round_robin sample_reply sample_team 0 sample_thread
       = Some (thread_after sample_reply sample_team sample_thread (Suc 2))"
    by (rule iffD2)
  also have "thread_after sample_reply sample_team sample_thread (Suc 2)
       = [\<lparr>source = ''user'', content = ''cv''\<rparr>,
               \<lparr>source = ''ResumeDraftAgent'', content = ''FINAL draft: cv''\<rparr>,
               \<lparr>source = ''ResumeEnhancementAgent'', content = ''FINAL draft: cv''\<rparr>,
               \<lparr>source = ''ResumeConcisenessAgent'', content = ''FINAL draft: cv FINAL''\<rparr>]"
    by code_simp
  finally show ?thesis
    using h1 h2 src draft never by simp
qed

section \<open>Properties of the workflow\<close>

lemma drain_stream_of_from:
  "i \<le> length items \<Longrightarrow>
   drain (stream_of items) i result
     = Some (Inr (if i = length items then result else Some (last items)))"
proof (induction "length items - i" arbitrary: i result)
  case 0
  then show ?case
    by (subst drain.simps) (simp add: stream_of_def)
next
  case (Suc d)
  then have lt: "i < length items" by simp
  have "drain (stream_of items) (Suc i) (Some (items ! i))
        = Some (Inr (if Suc i = length items then Some (items ! i) else Some (last items)))"
    using Suc.hyps(2) lt by (intro Suc.hyps(1)) auto
  moreover have "Suc i = length items \<Longrightarrow> items ! i = last items"
    using lt by (metis diff_Suc_1 last_conv_nth length_greater_0_conv less_nat_zero_code list.size(3))
  ultimately show ?case
    using lt by (subst drain.simps) (auto simp: stream_of_def)
qed

lemma drain_stream_of:
  "drain (stream_of items) 0 None = Some (Inr (if items = [] then None else Some (last items)))"
  using drain_stream_of_from [of 0 items None] by auto

lemma last_content_result:
  "last_content (Some (StreamResult \<lparr>messages = msgs, stop_reason = r\<rparr>))
     = Inr (if msgs = [] then None else Some (content (last msgs)))"
  by (simp add: last_content_def)


text \<open>
  C2. \<^verbatim>\<open>improve_resume_text\<close> passes to the team the task prompt, two line breaks, the
  line \<^verbatim>\<open>Original Resume Text:\<close> and the resume text, and reads the stream of the run to
  its end. When the run yields its messages and then the result that collects them, the
  value returned is the content of the last message, and \<^verbatim>\<open>None\<close> when there is no
  message; when the run yields nothing at all, the value is \<^verbatim>\<open>None\<close> as well. Neither
  case raises.
\<close>

theorem improve_resume_text_last_message:
  assumes "load_prompt w (prompt_manager s) ''resume_team_task_prompt'' = (Inr task_prompt, pm)"
    and "create_team w (s\<lparr>prompt_manager := pm\<rparr>) = (Inr g, s1)"
  shows "(run_stream w g
            (task_prompt @ [newline, newline] @ ''Original Resume Text:'' @ [newline] @ resume_text)
          = stream_of (map StreamMessage msgs @ [StreamResult \<lparr>messages = msgs, stop_reason = r\<rparr>])
        \<longrightarrow> improve_resume_text w s resume_text
            = Some (Inr (if msgs = [] then None else Some (content (last msgs))),
                    s1\<lparr>calls := calls s1 @ [RunTeam g
                      (task_prompt @ [newline, newline] @ ''Original Resume Text:'' @ [newline]
                         @ resume_text)]\<rparr>))
     \<and> (run_stream w g
            (task_prompt @ [newline, newline] @ ''Original Resume Text:'' @ [newline] @ resume_text)
          = stream_of []
        \<longrightarrow> improve_resume_text w s resume_text
            = Some (Inr None,
                    s1\<lparr>calls := calls s1 @ [RunTeam g
                      (task_prompt @ [newline, newline] @ ''Original Resume Text:'' @ [newline]
                         @ resume_text)]\<rparr>))"
proof (intro conjI impI)
  let ?task = "task_prompt @ [newline, newline] @ ''Original Resume Text:'' @ [newline] @ resume_text"
  have task: "team_task task_prompt resume_text = ?task"
    by (simp add: team_task_def)
  {
    assume st: "run_stream w g ?task
          = stream_of (map StreamMessage msgs @ [StreamResult \<lparr>messages = msgs, stop_reason = r\<rparr>])"
    have "drain (run_stream w g ?task) 0 None
          = Some (Inr (Some (StreamResult \<lparr>messages = msgs, stop_reason = r\<rparr>)))"
      unfolding st drain_stream_of by simp
    then show "improve_resume_text w s resume_text
            = Some (Inr (if msgs = [] then None else Some (content (last msgs))),
                    s1\<lparr>calls := calls s1 @ [RunTeam g ?task]\<rparr>)"
      using assms by (simp add: improve_resume_text_def task last_content_result Let_def)
  }
  {
    assume st: "run_stream w g ?task = stream_of []"
    have "drain (run_stream w g ?task) 0 None = Some (Inr None)"
      unfolding st drain_stream_of by simp
    then show "improve_resume_text w s resume_text
            = Some (Inr None, s1\<lparr>calls := calls s1 @ [RunTeam g ?task]\<rparr>)"
      using assms by (simp add: improve_resume_text_def task last_content_def Let_def)
  }
qed

theorem improve_resume_text_last_message_witness:
  "load_prompt sample_world (prompt_manager sample_improver) ''resume_team_task_prompt''
     = (Inr ''Improve this resume.'',
        \<lparr>prompts_dir = ''prompts'',
         prompt_cache = [(''resume_team_task_prompt'', ''Improve this resume.'')]\<rparr>)
   \<and> fst (create_team sample_world
            (sample_improver\<lparr>prompt_manager :=
               \<lparr>prompts_dir = ''prompts'',
                prompt_cache = [(''resume_team_task_prompt'', ''Improve this resume.'')]\<rparr>\<rparr>))
       = Inr sample_team
   \<and> map_option fst
         (improve_resume_text sample_world sample_improver ''Experience: built tools.'')
       = Some (Inr (Some ''Experience: built tools. FINAL''))
   \<and> map_option fst
         (improve_resume_text (sample_world\<lparr>run_stream := \<lambda>g task. stream_of []\<rparr>)
            sample_improver ''Experience: built tools.'')
       = Some (Inr None)"
proof -
  let ?pm = "\<lparr>prompts_dir = ''prompts'',
         prompt_cache = [(''resume_team_task_prompt'', ''Improve this resume.'')]\<rparr>"
  let ?s = "sample_improver\<lparr>prompt_manager := ?pm\<rparr>"
  let ?w = "sample_world\<lparr>run_stream := \<lambda>g task. stream_of []\<rparr>"
  let ?task = "''Improve this resume.'' @ [newline, newline] @ ''Original Resume Text:''
                 @ [newline] @ ''Experience: built tools.''"
  have h1: "load_prompt sample_world (prompt_manager sample_improver) ''resume_team_task_prompt''
     = (Inr ''Improve this resume.'', ?pm)"
    by code_simp
  have g: "fst (create_team sample_world ?s) = Inr sample_team"
    by code_simp
  then have h2: "create_team sample_world ?s = (Inr sample_team, snd (create_team sample_world ?s))"
    by (simp add: prod_eq_iff)
  have h3: "run_stream sample_world sample_team ?task
          = stream_of (map StreamMessage sample_messages
               @ [StreamResult \<lparr>messages = sample_messages, stop_reason = None\<rparr>])"
    by (simp add: sample_world_def)
  have m: "sample_messages \<noteq> []"
    "content (last sample_messages) = ''Experience: built tools. FINAL''"
    by (simp_all add: sample_messages_def)
  from improve_resume_text_last_message [OF h1 h2, of "''Experience: built tools.''"
      sample_messages None] h3 m
  have a: "map_option fst
         (improve_resume_text sample_world sample_improver ''Experience: built tools.'')
       = Some (Inr (Some ''Experience: built tools. FINAL''))"
    by simp
  have k1: "load_prompt ?w (prompt_manager sample_improver) ''resume_team_task_prompt''
     = (Inr ''Improve this resume.'', ?pm)"
    by code_simp
  have "fst (create_team ?w ?s) = Inr sample_team"
    by code_simp
  then have k2: "create_team ?w ?s = (Inr sample_team, snd (create_team ?w ?s))"
    by (simp add: prod_eq_iff)
  have k3: "run_stream ?w sample_team ?task = stream_of []"
    by simp
  from improve_resume_text_last_message [OF k1 k2, of "''Experience: built tools.''"] k3
  have b: "map_option fst (improve_resume_text ?w sample_improver ''Experience: built tools.'')
       = Some (Inr None)"
    by simp
  from h1 g a b show ?thesis by simp
qed


lemma calls_assistant_agent:
  "assistant_agent w s name prompt_name = (r, s') \<Longrightarrow> calls s' = calls s"
  by (auto simp: assistant_agent_def Let_def split: prod.splits sum.splits)

lemma calls_create_team: "create_team w s = (r, s') \<Longrightarrow> calls s' = calls s"
  unfolding create_team_def create_draft_agent_def create_enhancement_agent_def
    create_conciseness_agent_def
  by (auto simp: Let_def split: option.splits prod.splits sum.splits
      dest!: calls_assistant_agent)

lemma calls_improve_resume_text:
  assumes "improve_resume_text w s resume_text = Some (r, s')"
  shows "calls s' = calls s \<or> (\<exists>g task. calls s' = calls s @ [RunTeam g task])"
proof (cases "load_prompt w (prompt_manager s) ''resume_team_task_prompt''")
  case (Pair lp pm)
  show ?thesis
  proof (cases lp)
    case (Inl e)
    with Pair assms show ?thesis
      by (auto simp: improve_resume_text_def)
  next
    case (Inr task_prompt)
    show ?thesis
    proof (cases "create_team w (s\<lparr>prompt_manager := pm\<rparr>)")
      case ct: (Pair tr s1)
      from calls_create_team [OF ct] have c: "calls s1 = calls s" by simp
      show ?thesis
      proof (cases tr)
        case (Inl e)
        with Pair Inr ct assms c show ?thesis
          by (auto simp: improve_resume_text_def Let_def)
      next
        case g: (Inr g)
        with Pair Inr ct assms c show ?thesis
          by (auto simp: improve_resume_text_def Let_def split: option.splits sum.splits)
      qed
    qed
  qed
qed

text \<open>
  C4. When the text pipeline returns \<^verbatim>\<open>None\<close>, the improvement workflow returns
  \<^verbatim>\<open>None\<close> in the state the text pipeline left: between the start of the workflow and
  its end the image agent was not run and nothing was exported. The run of the program
  then ends with the report that no content was generated, in that same state.
\<close>

theorem no_text_no_image_stage:
  assumes "improve_resume_text w s resume_text = Some (Inr None, s1)"
  shows "improve_resume w s resume_text img = Some (Inr None, s1)
    \<and> filter is_image_stage (calls s1) = filter is_image_stage (calls s)
    \<and> filter is_export (calls s1) = filter is_export (calls s)
    \<and> (\<forall>s0 p imgs. get_pdf_path w = Inr p \<and> validate_pdf_file w p = Inr p
           \<and> process_pdf_file w s0 p = (Inr (resume_text, img # imgs), s)
         \<longrightarrow> run w s0 = Some (NoContent, s1))"
proof -
  have a: "improve_resume w s resume_text img = Some (Inr None, s1)"
    using assms by (simp add: improve_resume_def)
  from calls_improve_resume_text [OF assms]
  have b: "filter is_image_stage (calls s1) = filter is_image_stage (calls s)"
    and c: "filter is_export (calls s1) = filter is_export (calls s)"
    by auto
  have d: "\<forall>s0 p imgs. get_pdf_path w = Inr p \<and> validate_pdf_file w p = Inr p
           \<and> process_pdf_file w s0 p = (Inr (resume_text, img # imgs), s)
         \<longrightarrow> run w s0 = Some (NoContent, s1)"
    using a by (simp add: run_def)
  from a b c d show ?thesis by blast
qed


theorem no_text_no_image_stage_witness:
  "map_option fst
         (improve_resume_text (sample_world\<lparr>run_stream := \<lambda>g task. stream_of []\<rparr>)
            sample_improver ''Experience: built tools.'')
       = Some (Inr None)
   \<and> map_option fst
         (improve_resume (sample_world\<lparr>run_stream := \<lambda>g task. stream_of []\<rparr>) sample_improver
            ''Experience: built tools.'' (Image 1))
       = Some (Inr None)
   \<and> map_option fst (run (sample_world\<lparr>run_stream := \<lambda>g task. stream_of []\<rparr>) sample_improver)
       = Some NoContent
   \<and> map_option (\<lambda>r. filter (\<lambda>c. is_image_stage c \<or> is_export c) (calls (snd r)))
         (run (sample_world\<lparr>run_stream := \<lambda>g task. stream_of []\<rparr>) sample_improver)
       = Some []"
proof -
  let ?w = "sample_world\<lparr>run_stream := \<lambda>g task. stream_of []\<rparr>"
  let ?t = "''Experience: built tools.''"
  have m: "map_option fst (improve_resume_text ?w sample_improver ?t) = Some (Inr None)"
    by code_simp
  then obtain s1 where h: "improve_resume_text ?w sample_improver ?t = Some (Inr None, s1)"
    by (cases "improve_resume_text ?w sample_improver ?t") auto
  have p: "get_pdf_path ?w = Inr ''cv.PDF''" "validate_pdf_file ?w ''cv.PDF'' = Inr ''cv.PDF''"
    "process_pdf_file ?w sample_improver ''cv.PDF''
       = (Inr (?t, Image 1 # [Image 2]), sample_improver)"
    by code_simp+
  have c0: "calls sample_improver = []"
    by (simp add: sample_improver_def)
  note t = no_text_no_image_stage [OF h, of "Image 1"]
  from t have a: "improve_resume ?w sample_improver ?t (Image 1) = Some (Inr None, s1)"
    by blast
  from t p have b: "run ?w sample_improver = Some (NoContent, s1)"
    by blast
  from t c0 have c: "filter is_image_stage (calls s1) = []" "filter is_export (calls s1) = []"
    by simp_all
  have "filter (\<lambda>c. is_image_stage c \<or> is_export c) (calls s1) = []"
    using c by (auto simp: filter_empty_conv)
  with m a b show ?thesis by simp
qed

text \<open>
  C3. When the path passes validation and the extractor returns without raising, but the
  text is empty (or only white space) or there is no page image, \<^verbatim>\<open>process_pdf_file\<close>
  raises a \<^verbatim>\<open>ValueError\<close>, saying that no text, or else that no images, could be
  extracted, and it has made no call. The run of the program then ends with that error
  and nothing has been called: no inference took place.
\<close>

theorem empty_extraction_halts_before_inference:
  assumes "validate_pdf_path w p = Inr p"
    and "extract_text w p = Inr text_content"
    and "convert_to_images w (pdf_processor (resume_processor s)) p None = (Inr images, pp)"
    and "strip text_content = [] \<or> images = []"
  shows "fst (process_pdf_file w s p)
           = Inl (ValueError (if strip text_content = []
                              then ''No text could be extracted from the PDF''
                              else ''No images could be extracted from the PDF''))
    \<and> calls (snd (process_pdf_file w s p)) = calls s
    \<and> (get_pdf_path w = Inr p \<and> validate_pdf_file w p = Inr p
         \<longrightarrow> (\<exists>s'. run w s
                = Some (Failed (ValueError (if strip text_content = []
                              then ''No text could be extracted from the PDF''
                              else ''No images could be extracted from the PDF'')), s')
              \<and> filter is_inference (calls s') = filter is_inference (calls s)))"
proof -
  let ?e = "ValueError (if strip text_content = []
                              then ''No text could be extracted from the PDF''
                              else ''No images could be extracted from the PDF'')"
  have pp: "process_pdf w (resume_processor s) p None
      = (Inr (text_content, images, []), (resume_processor s)\<lparr>pdf_processor := pp\<rparr>, [])"
    using assms(1-3) by (simp add: process_pdf_def)
  have f: "process_pdf_file w s p
      = (Inl ?e, s\<lparr>resume_processor := (resume_processor s)\<lparr>pdf_processor := pp\<rparr>,
                    calls := calls s @ []\<rparr>)"
    using assms(4) unfolding process_pdf_file_def pp by (auto simp: Let_def)
  then have a: "fst (process_pdf_file w s p) = Inl ?e"
    and b: "calls (snd (process_pdf_file w s p)) = calls s"
    by simp_all
  have c: "get_pdf_path w = Inr p \<and> validate_pdf_file w p = Inr p
         \<longrightarrow> (\<exists>s'. run w s = Some (Failed ?e, s')
              \<and> filter is_inference (calls s') = filter is_inference (calls s))"
    by (simp add: run_def f)
  from a b c show ?thesis by blast
qed

theorem empty_extraction_halts_before_inference_witness:
  "validate_pdf_path sample_world ''broken.pdf'' = Inr ''broken.pdf''
   \<and> extract_text sample_world ''broken.pdf'' = Inr []
   \<and> fst (convert_to_images sample_world (pdf_processor (resume_processor sample_improver))
            ''broken.pdf'' None) = Inr []
   \<and> fst (process_pdf_file sample_world sample_improver ''broken.pdf'')
       = Inl (ValueError ''No text could be extracted from the PDF'')
   \<and> map_option fst
        (run (sample_world\<lparr>argv := [''resumeimprover.py'', ''broken.pdf'']\<rparr>) sample_improver)
       = Some (Failed (ValueError ''No text could be extracted from the PDF''))
   \<and> map_option (\<lambda>r. filter is_inference (calls (snd r)))
        (run (sample_world\<lparr>argv := [''resumeimprover.py'', ''broken.pdf'']\<rparr>) sample_improver)
       = Some []"
proof -
  let ?w = "sample_world\<lparr>argv := [''resumeimprover.py'', ''broken.pdf'']\<rparr>"
  let ?pp = "pdf_processor (resume_processor sample_improver)"
  have h: "validate_pdf_path sample_world ''broken.pdf'' = Inr ''broken.pdf''"
    "extract_text sample_world ''broken.pdf'' = Inr []"
    "fst (convert_to_images sample_world ?pp ''broken.pdf'' None) = Inr []"
    by code_simp+
  then have h3: "convert_to_images sample_world ?pp ''broken.pdf'' None
      = (Inr [], snd (convert_to_images sample_world ?pp ''broken.pdf'' None))"
    by (simp add: prod_eq_iff)
  have z: "strip [] = [] \<or> ([]::image list) = []"
    by (simp add: strip_def)
  from empty_extraction_halts_before_inference [OF h(1,2) h3 z]
  have a: "fst (process_pdf_file sample_world sample_improver ''broken.pdf'')
       = Inl (ValueError ''No text could be extracted from the PDF'')"
    by (simp add: strip_def)
  have k: "validate_pdf_path ?w ''broken.pdf'' = Inr ''broken.pdf''"
    "extract_text ?w ''broken.pdf'' = Inr []"
    "fst (convert_to_images ?w ?pp ''broken.pdf'' None) = Inr []"
    "get_pdf_path ?w = Inr ''broken.pdf''"
    "validate_pdf_file ?w ''broken.pdf'' = Inr ''broken.pdf''"
    by code_simp+
  then have k3: "convert_to_images ?w ?pp ''broken.pdf'' None
      = (Inr [], snd (convert_to_images ?w ?pp ''broken.pdf'' None))"
    by (simp add: prod_eq_iff)
  have c0: "calls sample_improver = []"
    by (simp add: sample_improver_def)
  from empty_extraction_halts_before_inference [OF k(1,2) k3 z] k(4,5) c0
  obtain s' where "run ?w sample_improver
       = Some (Failed (ValueError ''No text could be extracted from the PDF''), s')"
    "filter is_inference (calls s') = []"
    by (auto simp: strip_def)
  with h a show ?thesis by simp
qed

end
